theory Spec2Isabelle
  imports Main "HOL-Library.Word"
begin

section \<open>Go values, strings and the library functions the handlers call\<close>

text \<open>
  A Go \<open>string\<close> is a sequence of bytes, which is what \<^typ>\<open>string\<close> is. A Go
  \<open>error\<close> is represented by its message. A value of static type \<open>interface{}\<close> (a JSON
  argument, a value scanned from a row) is one of the dynamic types below; a \<open>float64\<close>
  is carried as its 64 bits and never computed with.
\<close>

datatype any =
    VNil
  | VBool bool
  | VInt "64 word"
  | VFloat "64 word"
  | VStr string
  | VBytes string
  | VSlice "any list"
  | VObject "(string \<times> any) list"

type_synonym row = "string \<rightharpoonup> any"

text \<open>
  The standard library and the MCP framework are outside the repository. Their behaviour
  on ASCII strings is written out below; what they do beyond that is a parameter, so every
  theorem holds whatever these functions return:
  \<^item> \<open>unicodeMapUpper s\<close> is \<open>strings.Map(unicode.ToUpper, s)\<close>;
  \<^item> \<open>unicodeTrimSpace s\<close> is \<open>strings.TrimFunc(s, unicode.IsSpace)\<close>;
  \<^item> \<open>unicodeTrimRightSpace s\<close> is \<open>strings.TrimRightFunc(s, unicode.IsSpace)\<close>;
  \<^item> \<open>castToString v\<close> is \<open>cast.ToString(v)\<close> for a value that is not a string;
  \<^item> the three \<open>marshal\<close> functions are \<open>json.MarshalIndent(v, "", "  ")\<close> at the three
    types it is called at (\<open>Inl\<close> is its error).
\<close>

record lib =
  unicodeMapUpper :: "string \<Rightarrow> string"
  unicodeTrimSpace :: "string \<Rightarrow> string"
  unicodeTrimRightSpace :: "string \<Rightarrow> string"
  castToString :: "any \<Rightarrow> string"
  marshalRows :: "row list \<Rightarrow> string + string"
  marshalStrings :: "string list \<Rightarrow> string + string"
  marshalTableInfo :: "string \<Rightarrow> row list \<Rightarrow> string + string"

definition isASCIIByte :: "char \<Rightarrow> bool" where
  "isASCIIByte c = ((of_char c :: nat) < 128)"

definition isLowerByte :: "char \<Rightarrow> bool" where
  "isLowerByte c = (97 \<le> (of_char c :: nat) \<and> (of_char c :: nat) \<le> 122)"

definition upperByte :: "char \<Rightarrow> char" where
  "upperByte c = (if isLowerByte c then char_of ((of_char c :: nat) - 32) else c)"

text \<open>
  \<open>strings.ToUpper\<close>: a string of ASCII bytes only has each of \<open>'a'..'z'\<close> moved down by
  \<open>'a' - 'A'\<close>; any other string goes through the Unicode mapping.
\<close>

definition ToUpper :: "lib \<Rightarrow> string \<Rightarrow> string" where
  "ToUpper L s = (if list_all isASCIIByte s then map upperByte s else unicodeMapUpper L s)"

text \<open>The table \<open>asciiSpace\<close> of package \<open>strings\<close>: tab, newline, vertical tab, form feed,
  carriage return and space.\<close>

definition asciiSpace :: "char \<Rightarrow> bool" where
  "asciiSpace c = ((of_char c :: nat) \<in> {9, 10, 11, 12, 13, 32})"

text \<open>
  \<open>strings.TrimSpace\<close>: skip ASCII spaces from the left; at a byte \<open>\<ge> 0x80\<close> hand the rest
  to the Unicode trimmer; otherwise skip ASCII spaces from the right, and at a byte
  \<open>\<ge> 0x80\<close> hand what is left to the Unicode right trimmer.
\<close>

definition TrimSpace :: "lib \<Rightarrow> string \<Rightarrow> string" where
  "TrimSpace L s =
     (let rest = dropWhile asciiSpace s in
      case rest of
        [] \<Rightarrow> []
      | c # _ \<Rightarrow>
          if \<not> isASCIIByte c then unicodeTrimSpace L rest
          else (let kept = rev (dropWhile asciiSpace (rev rest)) in
                if \<not> isASCIIByte (last kept) then unicodeTrimRightSpace L kept else kept))"

definition HasPrefix :: "string \<Rightarrow> string \<Rightarrow> bool" where
  "HasPrefix s pre = (length pre \<le> length s \<and> take (length pre) s = pre)"

definition TrimPrefix :: "string \<Rightarrow> string \<Rightarrow> string" where
  "TrimPrefix s pre = (if HasPrefix s pre then drop (length pre) s else s)"

text \<open>\<open>fmt\<close>'s \<open>%d\<close> of an \<open>int64\<close>.\<close>

function natDigits :: "nat \<Rightarrow> string" where
  "natDigits n = (if n < 10 then [char_of (48 + n)] else natDigits (n div 10) @ [char_of (48 + n mod 10)])"
  by pat_completeness auto
termination
  by (relation "measure id") auto

definition fmtInt64 :: "64 word \<Rightarrow> string" where
  "fmtInt64 i = (if sint i < 0 then CHR ''-'' # natDigits (nat (- sint i)) else natDigits (nat (sint i)))"

section \<open>The driver, the filesystem and the trace of calls made on them\<close>

text \<open>
  Every call the program makes on an external collaborator is recorded in a trace, next to
  the collaborator's own state \<open>store\<close>. A connection handle \<open>*sql.DB\<close> is represented by the
  data source name it was opened with.
\<close>

datatype event =
    EvStat string
  | EvPrintf string
  | EvOpen string string
  | EvPing string
  | EvClose string
  | EvQuery string string "any list"
  | EvExec string string "any list"

record 'st world =
  store :: 'st
  trace :: "event list"

text \<open>
  \<open>os.Stat\<close> succeeds or fails with an error number. \<open>os.IsNotExist(err)\<close> is true for
  \<open>ENOENT\<close> alone: not for a nil error, and not for the other errors \<open>stat\<close> gives for a
  name that names no file, such as \<open>ENOTDIR\<close> (a component of the path is a regular file)
  or \<open>ENAMETOOLONG\<close>.
\<close>

datatype errno = ENOENT | ENOTDIR | ENAMETOOLONG | EACCES

datatype stat_result = StatOk | StatErr errno

definition IsNotExist :: "stat_result \<Rightarrow> bool" where
  "IsNotExist r = (r = StatErr ENOENT)"

text \<open>
  What \<open>conn.Query\<close> hands back: the result of \<open>rows.Columns()\<close>, the outcome of each
  \<open>rows.Next()\<close>/\<open>rows.Scan\<close> round that \<open>Next\<close> allowed (\<open>Inl\<close> is a scan error, \<open>Inr\<close> the
  values, one per column), and \<open>rows.Err()\<close>.
\<close>

record sql_rows =
  Columns :: "string + string list"
  Scans :: "(string + any list) list"
  Err :: "string option"

record 'st env =
  osStat :: "string \<Rightarrow> 'st \<Rightarrow> stat_result"
  sqlOpen :: "string \<Rightarrow> string \<Rightarrow> 'st \<Rightarrow> string option \<times> 'st"
  connPing :: "string \<Rightarrow> 'st \<Rightarrow> string option \<times> 'st"
  connClose :: "string \<Rightarrow> 'st \<Rightarrow> string option \<times> 'st"
  connQuery :: "string \<Rightarrow> string \<Rightarrow> any list \<Rightarrow> 'st \<Rightarrow> (string + sql_rows) \<times> 'st"
  connExec :: "string \<Rightarrow> string \<Rightarrow> any list \<Rightarrow> 'st \<Rightarrow> (string + (string + 64 word)) \<times> 'st"

definition emit :: "event \<Rightarrow> 'st \<Rightarrow> 'st world \<Rightarrow> 'st world" where
  "emit ev st w = \<lparr>store = st, trace = trace w @ [ev]\<rparr>"

section \<open>internal/database/db.go\<close>

definition InMemoryDB :: string where
  "InMemoryDB = '':memory:''"

record DB =
  conn :: string
  path :: string

text \<open>Lines 32 to 49 of \<open>New\<close>: the data source name.\<close>

definition dsnOf :: "string \<Rightarrow> bool \<Rightarrow> string" where
  "dsnOf dbPath readOnly =
     (if dbPath = InMemoryDB then InMemoryDB
      else (''file:'' @ dbPath) @ (if readOnly then ''?mode=ro'' else ''?mode=rwc'')
           @ ''&_journal_mode=off&_temp_store=memory&_synchronous=off&_cache_size=-64000&_mmap_size=0'')"

text \<open>Lines 51 to 69 of \<open>New\<close>: open, ping, and close again when the ping fails.\<close>

definition connect :: "'st env \<Rightarrow> string \<Rightarrow> string \<Rightarrow> 'st world \<Rightarrow> (string + DB) \<times> 'st world" where
  "connect E dbPath dsn w0 =
     (let w1 = emit (EvPrintf (''Connecting to database: '' @ dsn @ [CHR 0x0A])) (store w0) w0;
          (openErr, s2) = sqlOpen E ''sqlite'' dsn (store w1);
          w2 = emit (EvOpen ''sqlite'' dsn) s2 w1
      in case openErr of
           Some e \<Rightarrow> (Inl (''failed to open database: '' @ e), w2)
         | None \<Rightarrow>
            (let (pingErr, s3) = connPing E dsn (store w2);
                 w3 = emit (EvPing dsn) s3 w2
             in case pingErr of
                  Some e \<Rightarrow>
                    (let (closeErr, s4) = connClose E dsn (store w3);
                         w4 = emit (EvClose dsn) s4 w3
                     in case closeErr of
                          Some e' \<Rightarrow> (Inl (''failed to close database connection after ping error: '' @ e'), w4)
                        | None \<Rightarrow> (Inl (''failed to ping database: '' @ e), w4))
                | None \<Rightarrow> (Inr \<lparr>conn = dsn, path = dbPath\<rparr>, w3)))"

definition New :: "'st env \<Rightarrow> string \<Rightarrow> bool \<Rightarrow> 'st world \<Rightarrow> (string + DB) \<times> 'st world" where
  "New E dbPath readOnly w =
     (if dbPath \<noteq> InMemoryDB then
        (let w1 = emit (EvStat dbPath) (store w) w in
         if IsNotExist (osStat E dbPath (store w))
         then (Inl (''database file does not exist: '' @ dbPath), w1)
         else connect E dbPath (dsnOf dbPath readOnly) w1)
      else connect E dbPath (dsnOf dbPath readOnly) w)"

definition convValue :: "any \<Rightarrow> any" where
  "convValue v = (case v of VBytes b \<Rightarrow> VStr b | _ \<Rightarrow> v)"

definition makeRow :: "string list \<Rightarrow> any list \<Rightarrow> row" where
  "makeRow cols vals = fold (\<lambda>(col, v) r. r(col \<mapsto> convValue v)) (zip cols vals) Map.empty"

fun scanRows :: "string list \<Rightarrow> (string + any list) list \<Rightarrow> row list \<Rightarrow> string + row list" where
  "scanRows cols [] results = Inr results"
| "scanRows cols (Inl e # rest) results = Inl (''failed to scan row: '' @ e)"
| "scanRows cols (Inr vals # rest) results = scanRows cols rest (results @ [makeRow cols vals])"

definition Query :: "'st env \<Rightarrow> DB \<Rightarrow> string \<Rightarrow> any list \<Rightarrow> 'st world \<Rightarrow> (string + row list) \<times> 'st world" where
  "Query E db query args w =
     (let (res, st) = connQuery E (conn db) query args (store w);
          w' = emit (EvQuery (conn db) query args) st w
      in case res of
           Inl e \<Rightarrow> (Inl (''query failed: '' @ e), w')
         | Inr rows \<Rightarrow>
            (case Columns rows of
               Inl e \<Rightarrow> (Inl (''failed to get columns: '' @ e), w')
             | Inr cols \<Rightarrow>
                (case scanRows cols (Scans rows) [] of
                   Inl e \<Rightarrow> (Inl e, w')
                 | Inr results \<Rightarrow>
                    (case Err rows of
                       Some e \<Rightarrow> (Inl (''row iteration error: '' @ e), w')
                     | None \<Rightarrow> (Inr results, w')))))"

definition Execute :: "'st env \<Rightarrow> DB \<Rightarrow> string \<Rightarrow> any list \<Rightarrow> 'st world \<Rightarrow> (string + 64 word) \<times> 'st world" where
  "Execute E db statement args w =
     (let (res, st) = connExec E (conn db) statement args (store w);
          w' = emit (EvExec (conn db) statement args) st w
      in case res of
           Inl e \<Rightarrow> (Inl (''execution failed: '' @ e), w')
         | Inr (Inl e) \<Rightarrow> (Inl (''failed to get rows affected: '' @ e), w')
         | Inr (Inr rowsAffected) \<Rightarrow> (Inr rowsAffected, w'))"

definition nameOfRow :: "row \<Rightarrow> string option" where
  "nameOfRow r = (case r ''name'' of Some (VStr name) \<Rightarrow> Some name | _ \<Rightarrow> None)"

definition GetTables :: "'st env \<Rightarrow> DB \<Rightarrow> 'st world \<Rightarrow> (string + string list) \<times> 'st world" where
  "GetTables E db w =
     (let query = ''SELECT name FROM sqlite_master WHERE type='' @ [CHR 0x27] @ ''table'' @ [CHR 0x27]
                  @ '' AND name NOT LIKE '' @ [CHR 0x27] @ ''sqlite_%'' @ [CHR 0x27] @ '' ORDER BY name'';
          (res, w') = Query E db query [] w
      in case res of
           Inl e \<Rightarrow> (Inl e, w')
         | Inr rows \<Rightarrow> (Inr (List.map_filter nameOfRow rows), w'))"

definition GetTableSchema :: "'st env \<Rightarrow> DB \<Rightarrow> string \<Rightarrow> 'st world \<Rightarrow> (string + row list) \<times> 'st world" where
  "GetTableSchema E db tableName w =
     (let query = ''PRAGMA table_info('' @ tableName @ '')'' in Query E db query [] w)"

section \<open>The MCP framework's request and result types\<close>

text \<open>
  \<open>mcp.CallToolRequest\<close> with its \<open>Params.Name\<close> and \<open>Params.Arguments\<close>, and
  \<open>mcp.CallToolResult\<close> with the text of its single \<open>TextContent\<close> item and its \<open>IsError\<close>
  flag. \<open>NewToolResultText\<close>, \<open>NewToolResultError\<close> and \<open>NewToolResultErrorFromErr\<close> are
  the framework's constructors; a handler returns the pair \<open>(*CallToolResult, error)\<close>,
  \<open>None\<close> standing for \<open>nil\<close>. \<open>ParseString\<close> returns a string argument as it is and
  converts any other value with \<open>cast.ToString\<close>.
\<close>

record CallToolRequest =
  Params_Name :: string
  Params_Arguments :: "string \<rightharpoonup> any"

record CallToolResult =
  Content :: "string list"
  IsError :: bool

type_synonym tool_return = "CallToolResult option \<times> string option"

definition NewToolResultText :: "string \<Rightarrow> CallToolResult" where
  "NewToolResultText text = \<lparr>Content = [text], IsError = False\<rparr>"

definition NewToolResultError :: "string \<Rightarrow> CallToolResult" where
  "NewToolResultError text = \<lparr>Content = [text], IsError = True\<rparr>"

definition NewToolResultErrorFromErr :: "string \<Rightarrow> string \<Rightarrow> CallToolResult" where
  "NewToolResultErrorFromErr text err = \<lparr>Content = [text @ '': '' @ err], IsError = True\<rparr>"

definition ParseArgument :: "CallToolRequest \<Rightarrow> string \<Rightarrow> any \<Rightarrow> any" where
  "ParseArgument request key defaultVal =
     (case Params_Arguments request key of None \<Rightarrow> defaultVal | Some v \<Rightarrow> v)"

definition ParseString :: "lib \<Rightarrow> CallToolRequest \<Rightarrow> string \<Rightarrow> string \<Rightarrow> string" where
  "ParseString L request key defaultValue =
     (case ParseArgument request key (VStr defaultValue) of
        VStr s \<Rightarrow> s
      | v \<Rightarrow> castToString L v)"

section \<open>internal/tools/query.go\<close>

text \<open>The block \<open>Parse parameters\<close> shared by both execute handlers.\<close>

definition parseParameters :: "CallToolRequest \<Rightarrow> any list" where
  "parseParameters request =
     (case ParseArgument request ''parameters'' VNil of VSlice paramSlice \<Rightarrow> paramSlice | _ \<Rightarrow> [])"

definition codeFence :: "string \<Rightarrow> string \<Rightarrow> string" where
  "codeFence header json =
     header @ [CHR 0x0A] @ ''```json'' @ [CHR 0x0A] @ json @ [CHR 0x0A] @ ''```''"

definition handleExecuteQuery ::
  "lib \<Rightarrow> 'st env \<Rightarrow> DB \<Rightarrow> CallToolRequest \<Rightarrow> 'st world \<Rightarrow> tool_return \<times> 'st world" where
  "handleExecuteQuery L E db request w =
     (let query = ParseString L request ''query'' [] in
      if query = [] then ((Some (NewToolResultError ''query parameter is required''), None), w)
      else
        (let trimmedQuery = TrimSpace L (ToUpper L query) in
         if \<not> HasPrefix trimmedQuery ''SELECT''
         then ((Some (NewToolResultError ''only SELECT queries are allowed with execute_query''), None), w)
         else
           (let params = parseParameters request;
                (res, w') = Query E db query params w
            in case res of
                 Inl err \<Rightarrow> ((Some (NewToolResultErrorFromErr ''Query execution failed'' err), None), w')
               | Inr results \<Rightarrow>
                  (case marshalRows L results of
                     Inl err \<Rightarrow> ((Some (NewToolResultErrorFromErr ''Failed to format results'' err), None), w')
                   | Inr jsonData \<Rightarrow>
                      ((Some (NewToolResultText (codeFence ''Query executed successfully. Results:'' jsonData)),
                        None), w')))))"

definition handleExecuteStatement ::
  "lib \<Rightarrow> 'st env \<Rightarrow> DB \<Rightarrow> CallToolRequest \<Rightarrow> 'st world \<Rightarrow> tool_return \<times> 'st world" where
  "handleExecuteStatement L E db request w =
     (let statement = ParseString L request ''statement'' [] in
      if statement = [] then ((Some (NewToolResultError ''statement parameter is required''), None), w)
      else
        (let trimmedStatement = TrimSpace L (ToUpper L statement) in
         if HasPrefix trimmedStatement ''SELECT''
         then ((Some (NewToolResultError ''SELECT queries should use execute_query tool''), None), w)
         else
           (let params = parseParameters request;
                (res, w') = Execute E db statement params w
            in case res of
                 Inl err \<Rightarrow> ((Some (NewToolResultErrorFromErr ''Statement execution failed'' err), None), w')
               | Inr rowsAffected \<Rightarrow>
                  ((Some (NewToolResultText
                            (''Statement executed successfully. Rows affected: '' @ fmtInt64 rowsAffected)),
                    None), w'))))"

definition handleListTables ::
  "lib \<Rightarrow> 'st env \<Rightarrow> DB \<Rightarrow> CallToolRequest \<Rightarrow> 'st world \<Rightarrow> tool_return \<times> 'st world" where
  "handleListTables L E db request w =
     (let (res, w') = GetTables E db w in
      case res of
        Inl err \<Rightarrow> ((Some (NewToolResultErrorFromErr ''Failed to list tables'' err), None), w')
      | Inr tables \<Rightarrow>
          if length tables = 0 then ((Some (NewToolResultText ''No tables found in the database''), None), w')
          else
            (case marshalStrings L tables of
               Inl err \<Rightarrow> ((Some (NewToolResultErrorFromErr ''Failed to format table list'' err), None), w')
             | Inr jsonData \<Rightarrow>
                ((Some (NewToolResultText (codeFence ''Tables in database:'' jsonData)), None), w')))"

definition quoted :: "string \<Rightarrow> string" where
  "quoted s = [CHR 0x27] @ s @ [CHR 0x27]"

definition handleDescribeTable ::
  "lib \<Rightarrow> 'st env \<Rightarrow> DB \<Rightarrow> CallToolRequest \<Rightarrow> 'st world \<Rightarrow> tool_return \<times> 'st world" where
  "handleDescribeTable L E db request w =
     (let tableName = ParseString L request ''table_name'' [] in
      if tableName = [] then ((Some (NewToolResultError ''table_name parameter is required''), None), w)
      else
        (let (res, w') = GetTableSchema E db tableName w in
         case res of
           Inl err \<Rightarrow>
             ((Some (NewToolResultErrorFromErr (''Failed to describe table '' @ quoted tableName) err), None), w')
         | Inr schema \<Rightarrow>
             if length schema = 0
             then ((Some (NewToolResultError (''Table '' @ quoted tableName @ '' not found'')), None), w')
             else
               (case marshalRows L schema of
                  Inl err \<Rightarrow> ((Some (NewToolResultErrorFromErr ''Failed to format schema'' err), None), w')
                | Inr jsonData \<Rightarrow>
                   ((Some (NewToolResultText
                             (codeFence (''Schema for table '' @ quoted tableName @ '':'') jsonData)),
                     None), w'))))"

definition HandleTool ::
  "lib \<Rightarrow> 'st env \<Rightarrow> DB \<Rightarrow> CallToolRequest \<Rightarrow> 'st world \<Rightarrow> tool_return \<times> 'st world" where
  "HandleTool L E db request w =
     (if Params_Name request = ''execute_query'' then handleExecuteQuery L E db request w
      else if Params_Name request = ''execute_statement'' then handleExecuteStatement L E db request w
      else if Params_Name request = ''list_tables'' then handleListTables L E db request w
      else if Params_Name request = ''describe_table'' then handleDescribeTable L E db request w
      else ((Some (NewToolResultError (''Unknown tool: '' @ Params_Name request)), None), w))"

text \<open>
  \<open>GetTools\<close> and the four tool descriptors. An \<open>mcp.Tool\<close> is its name, its description
  and its declared arguments (name, JSON type, description, required).
\<close>

record ToolArgument =
  argName :: string
  argType :: string
  argDescription :: string
  argRequired :: bool

record Tool =
  Name :: string
  Description :: string
  Arguments :: "ToolArgument list"

definition executeQueryTool :: Tool where
  "executeQueryTool =
     \<lparr>Name = ''execute_query'',
      Description = ''Execute a SELECT query against the SQLite database'',
      Arguments =
        [\<lparr>argName = ''query'', argType = ''string'',
          argDescription = ''The SQL SELECT query to execute'', argRequired = True\<rparr>,
         \<lparr>argName = ''parameters'', argType = ''array'',
          argDescription = ''Optional parameters for the query'', argRequired = False\<rparr>]\<rparr>"

definition executeStatementTool :: Tool where
  "executeStatementTool =
     \<lparr>Name = ''execute_statement'',
      Description = ''Execute an INSERT, UPDATE, or DELETE statement against the SQLite database'',
      Arguments =
        [\<lparr>argName = ''statement'', argType = ''string'',
          argDescription = ''The SQL statement to execute'', argRequired = True\<rparr>,
         \<lparr>argName = ''parameters'', argType = ''array'',
          argDescription = ''Optional parameters for the statement'', argRequired = False\<rparr>]\<rparr>"

definition listTablesTool :: Tool where
  "listTablesTool =
     \<lparr>Name = ''list_tables'',
      Description = ''List all tables in the SQLite database'',
      Arguments = []\<rparr>"

definition describeTableTool :: Tool where
  "describeTableTool =
     \<lparr>Name = ''describe_table'',
      Description = ''Get the schema information for a specific table'',
      Arguments =
        [\<lparr>argName = ''table_name'', argType = ''string'',
          argDescription = ''The name of the table to describe'', argRequired = True\<rparr>]\<rparr>"

definition GetTools :: "Tool list" where
  "GetTools = [executeQueryTool, executeStatementTool, listTablesTool, describeTableTool]"

section \<open>internal/resources/schema.go\<close>

record ReadResourceRequest =
  Params_URI :: string

record TextResourceContents =
  URI :: string
  MIMEType :: string
  Text :: string

record Resource =
  resURI :: string
  resName :: string
  resDescription :: string
  resMIMEType :: string

definition GetResources :: "Resource list" where
  "GetResources =
     [\<lparr>resURI = ''schema://tables'', resName = ''Database Tables'',
       resDescription = ''List of all tables in the SQLite database'',
       resMIMEType = ''application/json''\<rparr>]"

definition GetResourceTemplates :: "Resource list" where
  "GetResourceTemplates =
     [\<lparr>resURI = ''schema://table/{name}'', resName = ''Table Schema'',
       resDescription = ''Schema information for a specific table'',
       resMIMEType = ''application/json''\<rparr>]"

definition handleTablesList ::
  "lib \<Rightarrow> 'st env \<Rightarrow> DB \<Rightarrow> 'st world \<Rightarrow> (string + TextResourceContents list) \<times> 'st world" where
  "handleTablesList L E db w =
     (let (res, w') = GetTables E db w in
      case res of
        Inl err \<Rightarrow> (Inl (''failed to get tables: '' @ err), w')
      | Inr tables \<Rightarrow>
          (case marshalStrings L tables of
             Inl err \<Rightarrow> (Inl (''failed to marshal tables: '' @ err), w')
           | Inr jsonData \<Rightarrow>
               (Inr [\<lparr>URI = ''schema://tables'', MIMEType = ''application/json'', Text = jsonData\<rparr>], w')))"

definition handleTableSchema ::
  "lib \<Rightarrow> 'st env \<Rightarrow> DB \<Rightarrow> string \<Rightarrow> 'st world \<Rightarrow> (string + TextResourceContents list) \<times> 'st world" where
  "handleTableSchema L E db tableName w =
     (if tableName = [] then (Inl ''table name is required'', w)
      else
        (let (res, w') = GetTableSchema E db tableName w in
         case res of
           Inl err \<Rightarrow> (Inl (''failed to get table schema for '' @ quoted tableName @ '': '' @ err), w')
         | Inr schema \<Rightarrow>
             if length schema = 0 then (Inl (''table '' @ quoted tableName @ '' not found''), w')
             else
               (case marshalTableInfo L tableName schema of
                  Inl err \<Rightarrow> (Inl (''failed to marshal table schema: '' @ err), w')
                | Inr jsonData \<Rightarrow>
                    (Inr [\<lparr>URI = ''schema://table/'' @ tableName, MIMEType = ''application/json'',
                           Text = jsonData\<rparr>], w'))))"

definition HandleResource ::
  "lib \<Rightarrow> 'st env \<Rightarrow> DB \<Rightarrow> ReadResourceRequest \<Rightarrow> 'st world
     \<Rightarrow> (string + TextResourceContents list) \<times> 'st world" where
  "HandleResource L E db request w =
     (let uri = Params_URI request in
      if uri = ''schema://tables'' then handleTablesList L E db w
      else if HasPrefix uri ''schema://table/''
      then (let tableName = TrimPrefix uri ''schema://table/'' in handleTableSchema L E db tableName w)
      else (Inl (''unknown resource URI: '' @ uri), w))"

section \<open>cmd/server/main.go: registration\<close>

text \<open>
  The MCP server is represented by the calls made on it, in order. The handler passed with
  a tool is \<open>queryTools.HandleTool\<close>, the one passed with a resource or a template is
  \<open>schemaResources.HandleResource\<close>; both are bound to the connection \<open>db\<close>.
\<close>

datatype server_call =
    AddTool Tool DB
  | AddResource Resource DB
  | AddResourceTemplate Resource DB
  | LogPrintf string

fun registerTools :: "DB \<Rightarrow> bool \<Rightarrow> Tool list \<Rightarrow> server_call list \<Rightarrow> server_call list" where
  "registerTools db readWrite [] mcpServer = mcpServer"
| "registerTools db readWrite (tool # rest) mcpServer =
     (if \<not> readWrite \<and> Name tool = ''execute_statement''
      then registerTools db readWrite rest
             (mcpServer @ [LogPrintf (''Skipping write tool '' @ quoted (Name tool) @ '' in read-only mode'')])
      else registerTools db readWrite rest (mcpServer @ [AddTool tool db]))"

definition registerToolsAndResources :: "server_call list \<Rightarrow> DB \<Rightarrow> bool \<Rightarrow> server_call list" where
  "registerToolsAndResources mcpServer db readWrite =
     (let s1 = registerTools db readWrite GetTools mcpServer;
          s2 = s1 @ map (\<lambda>resource. AddResource resource db) GetResources
      in s2 @ map (\<lambda>template. AddResourceTemplate template db) GetResourceTemplates)"

text \<open>The names of the tools a server has been given.\<close>

fun registeredTools :: "server_call list \<Rightarrow> string list" where
  "registeredTools [] = []"
| "registeredTools (AddTool tool db # rest) = Name tool # registeredTools rest"
| "registeredTools (call # rest) = registeredTools rest"

section \<open>How SQLite reads a connection string\<close>

text \<open>
  The driver opens the connection string with URI filenames enabled. SQLite treats a name
  that starts with \<open>file:\<close> as a URI: the fragment, from the first \<open>#\<close> on, is dropped;
  the query is what follows the first \<open>?\<close> before the fragment; the query is a list of
  \<open>key=value\<close> parameters separated by \<open>&\<close>; and the access mode is the value of the last
  parameter whose key is \<open>mode\<close> (\<open>ro\<close>, \<open>rw\<close>, \<open>rwc\<close> or \<open>memory\<close>). A name that does not
  start with \<open>file:\<close>, such as \<open>:memory:\<close>, is a plain file name and sets no mode, and the
  database is then opened for reading and writing. SQLite also decodes \<open>%HH\<close> escapes; the
  parameters that \<open>New\<close> writes contain none, so decoding is left out.
\<close>

definition uriQuery :: "string \<Rightarrow> string" where
  "uriQuery uri =
     (let beforeFragment = takeWhile (\<lambda>c. c \<noteq> CHR ''#'') uri
      in drop 1 (dropWhile (\<lambda>c. c \<noteq> CHR ''?'') beforeFragment))"

fun splitOn :: "char \<Rightarrow> string \<Rightarrow> string list" where
  "splitOn sep [] = [[]]"
| "splitOn sep (c # s) =
     (if c = sep then [] # splitOn sep s
      else (case splitOn sep s of [] \<Rightarrow> [[c]] | piece # pieces \<Rightarrow> (c # piece) # pieces))"

definition keyValue :: "string \<Rightarrow> string \<times> string" where
  "keyValue param =
     (takeWhile (\<lambda>c. c \<noteq> CHR ''='') param, drop 1 (dropWhile (\<lambda>c. c \<noteq> CHR ''='') param))"

definition lastMode :: "(string \<times> string) list \<Rightarrow> string option" where
  "lastMode params =
     (case filter (\<lambda>kv. fst kv = ''mode'') params of
        [] \<Rightarrow> None
      | kv # kvs \<Rightarrow> Some (snd (last (kv # kvs))))"

definition sqliteMode :: "string \<Rightarrow> string option" where
  "sqliteMode dsn =
     (if HasPrefix dsn ''file:''
      then lastMode (map keyValue (splitOn (CHR ''&'') (uriQuery (drop 5 dsn))))
      else None)"

text \<open>The parameters that \<open>New\<close> writes after the \<open>?\<close> when \<open>readOnly\<close> is set.\<close>

definition readOnlyParams :: string where
  "readOnlyParams =
     ''mode=ro&_journal_mode=off&_temp_store=memory&_synchronous=off&_cache_size=-64000&_mmap_size=0''"



section \<open>Trimming on ASCII text\<close>

text \<open>What \<open>TrimSpace\<close> leaves of a string of ASCII bytes.\<close>

definition trimASCII :: "string \<Rightarrow> string" where
  "trimASCII s = rev (dropWhile asciiSpace (rev (dropWhile asciiSpace s)))"

section \<open>A sample installation\<close>

text \<open>
  One concrete library, driver and database on which the theorems below are instantiated.
  The Unicode fallbacks leave their argument alone and JSON encoding always succeeds. The
  database files are \<open>/data/test.db\<close> and \<open>/data/a#b.db\<close>; \<open>/etc/hostname\<close> is a regular
  file, so \<open>stat\<close> of a name below it fails with \<open>ENOTDIR\<close>; the driver can open what is in
  \<open>/data\<close> and nothing else on disk. The driver's state counts the statements that
  have written to the database: a statement writes unless the connection's mode is \<open>ro\<close> or
  it names the table \<open>missing\<close>, and every other table is empty.
\<close>

definition sampleLib :: lib where
  "sampleLib =
     \<lparr>unicodeMapUpper = id, unicodeTrimSpace = id, unicodeTrimRightSpace = id,
      castToString = (\<lambda>v. []),
      marshalRows = (\<lambda>rs. Inr ''[]''),
      marshalStrings = (\<lambda>ss. Inr ''[]''),
      marshalTableInfo = (\<lambda>n rs. Inr ''{}'')\<rparr>"

definition sampleEnv :: "nat env" where
  "sampleEnv =
     \<lparr>osStat = (\<lambda>p st. if p = ''/data/test.db'' \<or> p = ''/data/a#b.db'' then StatOk
                        else if p = ''/etc/hostname/x.db'' then StatErr ENOTDIR
                        else StatErr ENOENT),
      sqlOpen = (\<lambda>drv dsn st. (None, st)),
      connPing = (\<lambda>dsn st. if dsn = '':memory:'' \<or> HasPrefix dsn ''file:/data/''
                            then (None, st)
                            else (Some ''unable to open database file'', st)),
      connClose = (\<lambda>dsn st. (None, st)),
      connQuery = (\<lambda>dsn sql args st.
                     if sql = ''SELECT * FROM missing''
                     then (Inl ''no such table: missing'', st)
                     else (Inr \<lparr>Columns = Inr [], Scans = [], Err = None\<rparr>, st)),
      connExec = (\<lambda>dsn sql args st.
                    if sqliteMode dsn = Some ''ro''
                    then (Inl ''attempt to write a readonly database'', st)
                    else if sql = ''DELETE FROM missing''
                    then (Inl ''no such table: missing'', st)
                    else (Inr (Inr 1), Suc st))\<rparr>"

definition sampleDB :: DB where
  "sampleDB = \<lparr>conn = '':memory:'', path = '':memory:''\<rparr>"

definition sampleWorld :: "nat world" where
  "sampleWorld = \<lparr>store = 0, trace = []\<rparr>"

definition toolRequest :: "string \<Rightarrow> string \<Rightarrow> string \<Rightarrow> CallToolRequest" where
  "toolRequest name key val = \<lparr>Params_Name = name, Params_Arguments = [key \<mapsto> VStr val]\<rparr>"

definition afterQuery :: "string \<Rightarrow> nat world" where
  "afterQuery sql = \<lparr>store = 0, trace = [EvQuery '':memory:'' sql []]\<rparr>"



text \<open>
  Three variations: a library whose JSON encoder fails, a driver whose every query fails,
  and a driver whose every query returns the single row \<open>name = users\<close>.
\<close>

definition brokenLib :: lib where
  "brokenLib =
     sampleLib\<lparr>marshalRows := (\<lambda>rs. Inl ''json: unsupported value: NaN''),
               marshalStrings := (\<lambda>ss. Inl ''json: unsupported value: NaN'')\<rparr>"

definition lockedEnv :: "nat env" where
  "lockedEnv = sampleEnv\<lparr>connQuery := (\<lambda>dsn sql args st. (Inl ''database is locked'', st))\<rparr>"

definition usersEnv :: "nat env" where
  "usersEnv =
     sampleEnv\<lparr>connQuery :=
       (\<lambda>dsn sql args st.
          (Inr \<lparr>Columns = Inr [''name''], Scans = [Inr [VStr ''users'']], Err = None\<rparr>, st))\<rparr>"

definition afterExec :: "string \<Rightarrow> nat world" where
  "afterExec sql = \<lparr>store = 0, trace = [EvExec '':memory:'' sql []]\<rparr>"

section \<open>Facts about the string functions\<close>

lemma HasPrefix_append: "HasPrefix (pre @ s) pre"
  by (simp add: HasPrefix_def)

lemma TrimPrefix_append: "TrimPrefix (pre @ s) pre = s"
  by (simp add: TrimPrefix_def HasPrefix_def)

lemma asciiSpace_upperByte: "asciiSpace (upperByte c) = asciiSpace c"
  unfolding asciiSpace_def upperByte_def isLowerByte_def
  by auto

lemma isASCIIByte_upperByte: "isASCIIByte c \<Longrightarrow> isASCIIByte (upperByte c)"
  unfolding isASCIIByte_def upperByte_def isLowerByte_def
  by auto

lemma dropWhile_space_upper:
  "dropWhile asciiSpace (map upperByte s) = map upperByte (dropWhile asciiSpace s)"
  by (induction s) (simp_all add: asciiSpace_upperByte)

lemma set_trimASCII: "set (trimASCII s) \<subseteq> set s"
proof -
  have "set (dropWhile asciiSpace (rev (dropWhile asciiSpace s))) \<subseteq> set (rev (dropWhile asciiSpace s))"
    by (meson set_dropWhileD subsetI)
  also have "\<dots> \<subseteq> set s"
    using set_dropWhileD by fastforce
  finally show ?thesis by (simp add: trimASCII_def)
qed

text \<open>
  \<open>TrimSpace\<close> reads the last byte of what the right-hand scan keeps. That scan stops at
  the first byte of \<open>rest\<close> at the latest, which is not a space, so there is a last byte.
\<close>

lemma TrimSpace_kept_nonempty:
  assumes "dropWhile asciiSpace s = c # cs"
  shows "rev (dropWhile asciiSpace (rev (c # cs))) \<noteq> []"
proof -
  have "\<not> asciiSpace c"
    by (metis assms hd_dropWhile list.distinct(1) list.sel(1))
  then show ?thesis
    by (auto simp: dropWhile_eq_Nil_conv)
qed

lemma TrimSpace_ascii:
  assumes "list_all isASCIIByte s"
  shows "TrimSpace L s = trimASCII s"
proof (cases "dropWhile asciiSpace s")
  case Nil
  show ?thesis by (simp add: TrimSpace_def trimASCII_def Nil)
next
  case (Cons c cs)
  have c_in: "c \<in> set s"
    by (metis Cons list.set_intros(1) set_dropWhileD)
  have "trimASCII s \<noteq> []"
    using TrimSpace_kept_nonempty [OF Cons] Cons by (simp add: trimASCII_def)
  then have "last (trimASCII s) \<in> set s"
    using set_trimASCII last_in_set by blast
  then have "isASCIIByte (last (trimASCII s))"
    using assms by (simp add: list_all_iff)
  moreover have "isASCIIByte c"
    using assms c_in by (simp add: list_all_iff)
  ultimately show ?thesis
    using Cons by (simp add: TrimSpace_def trimASCII_def Let_def)
qed

lemma trimASCII_upper: "trimASCII (map upperByte s) = map upperByte (trimASCII s)"
  by (simp add: trimASCII_def dropWhile_space_upper rev_map)

text \<open>
  The handlers upper-case first and trim second. On ASCII text the order does not matter.
\<close>

lemma trim_upper_commute_ascii:
  assumes "list_all isASCIIByte s"
  shows "TrimSpace L (ToUpper L s) = ToUpper L (TrimSpace L s)"
proof -
  have up: "list_all isASCIIByte (map upperByte s)"
    using assms by (simp add: list_all_iff isASCIIByte_upperByte)
  have tr: "list_all isASCIIByte (trimASCII s)"
    using assms set_trimASCII by (fastforce simp: list_all_iff)
  show ?thesis
    using assms up tr by (simp add: ToUpper_def TrimSpace_ascii trimASCII_upper)
qed

section \<open>Facts about connection strings\<close>


lemma readOnlyParams_mode:
  "lastMode (map keyValue (splitOn (CHR ''&'') readOnlyParams)) = Some ''ro''"
  by code_simp

lemma readOnlyParams_no_fragment: "CHR ''#'' \<notin> set readOnlyParams"
  by code_simp




section \<open>The data access wrapper\<close>











text \<open>
  \<open>New\<close> writes the path into the URI as it is. In a path that contains \<open>#\<close> or \<open>?\<close> the
  text \<open>mode=ro\<close> ends up in the fragment or inside another parameter, no mode is set, and
  on the sample driver a \<open>DELETE\<close> through such a connection goes through.
\<close>

lemma dsnOf_unescaped_path:
  "sqliteMode (dsnOf ''/data/a#b.db'' True) = None \<and> sqliteMode (dsnOf ''/data/a?b.db'' True) = None"
  by code_simp

lemma New_unescaped_path:
  "fst (New sampleEnv ''/data/a#b.db'' True sampleWorld) =
     Inr \<lparr>conn = dsnOf ''/data/a#b.db'' True, path = ''/data/a#b.db''\<rparr> \<and>
   snd (connExec sampleEnv (dsnOf ''/data/a#b.db'' True) ''DELETE FROM users'' [] 0) = 1"
  by code_simp

text \<open>
  C8. For a path other than \<open>:memory:\<close> for which \<open>os.Stat\<close> fails with a not-exist error
  (\<open>os.IsNotExist\<close>, that is \<open>ENOENT\<close>), \<open>New\<close> fails with
  \<open>database file does not exist: <path>\<close>, and the only call it has made is that
  \<open>os.Stat\<close>: no \<open>sql.Open\<close>, no ping.
\<close>

theorem New_missing_file:
  assumes "dbPath \<noteq> InMemoryDB"
    and "IsNotExist (osStat E dbPath (store w))"
  shows "New E dbPath readOnly w =
           (Inl (''database file does not exist: '' @ dbPath),
            \<lparr>store = store w, trace = trace w @ [EvStat dbPath]\<rparr>)"
  using assms by (simp add: New_def emit_def)

theorem New_missing_file_witness:
  "New sampleEnv ''/non/existent/path.db'' False sampleWorld =
     (Inl ''database file does not exist: /non/existent/path.db'',
      \<lparr>store = 0, trace = [EvStat ''/non/existent/path.db'']\<rparr>)"
  using New_missing_file [of "''/non/existent/path.db''" sampleEnv sampleWorld False]
  by (simp add: InMemoryDB_def IsNotExist_def sampleEnv_def sampleWorld_def)

text \<open>
  A name below a regular file names no file either, but \<open>stat\<close> fails on it with
  \<open>ENOTDIR\<close>, which \<open>os.IsNotExist\<close> does not accept: \<open>New\<close> goes on to \<open>sql.Open\<close> and
  the ping, and the error it returns is the ping's.
\<close>

theorem New_stat_not_a_directory:
  "osStat sampleEnv ''/etc/hostname/x.db'' (store sampleWorld) = StatErr ENOTDIR \<and>
   New sampleEnv ''/etc/hostname/x.db'' True sampleWorld =
     (Inl ''failed to ping database: unable to open database file'',
      \<lparr>store = 0,
       trace = [EvStat ''/etc/hostname/x.db'',
                EvPrintf (''Connecting to database: '' @ dsnOf ''/etc/hostname/x.db'' True @ [CHR 0x0A]),
                EvOpen ''sqlite'' (dsnOf ''/etc/hostname/x.db'' True),
                EvPing (dsnOf ''/etc/hostname/x.db'' True),
                EvClose (dsnOf ''/etc/hostname/x.db'' True)]\<rparr>)"
  by code_simp

text \<open>Whenever the error of \<open>os.Stat\<close> is any other, or there is none, \<open>New\<close> opens.\<close>

lemma New_other_stat_error:
  assumes "dbPath \<noteq> InMemoryDB"
    and "\<not> IsNotExist (osStat E dbPath (store w))"
  shows "New E dbPath readOnly w =
           connect E dbPath (dsnOf dbPath readOnly) \<lparr>store = store w, trace = trace w @ [EvStat dbPath]\<rparr>"
  using assms by (simp add: New_def emit_def)

lemma connect_opens:
  "EvOpen ''sqlite'' dsn \<in> set (trace (snd (connect E dbPath dsn w)))"
  by (auto simp: connect_def emit_def Let_def split: prod.splits option.splits)

text \<open>
  C10. \<open>GetTableSchema\<close> runs the SQL text \<open>PRAGMA table_info(\<close> followed by the table name
  as it was given followed by \<open>)\<close>, with no bound parameter: the name is part of the SQL
  text that reaches the driver.
\<close>

theorem GetTableSchema_concatenates_name:
  "GetTableSchema E db tableName w = Query E db (''PRAGMA table_info('' @ tableName @ '')'') [] w \<and>
   trace (snd (GetTableSchema E db tableName w)) =
     trace w @ [EvQuery (conn db) (''PRAGMA table_info('' @ tableName @ '')'') []]"
  by (simp add: GetTableSchema_def Query_def emit_def Let_def split: prod.splits sum.splits option.splits)

theorem GetTableSchema_concatenates_name_witness:
  "trace (snd (GetTableSchema sampleEnv sampleDB ''users); DROP TABLE users; --'' sampleWorld)) =
     [EvQuery '':memory:'' ''PRAGMA table_info(users); DROP TABLE users; --)'' []]"
proof -
  have "trace (snd (GetTableSchema sampleEnv sampleDB ''users); DROP TABLE users; --'' sampleWorld)) =
          trace sampleWorld @
          [EvQuery (conn sampleDB) (''PRAGMA table_info('' @ ''users); DROP TABLE users; --'' @ '')'') []]"
    using GetTableSchema_concatenates_name [of sampleEnv sampleDB "''users); DROP TABLE users; --''" sampleWorld]
    by blast
  then show ?thesis
    by (simp add: sampleDB_def sampleWorld_def)
qed

section \<open>The tool dispatcher\<close>

text \<open>
  C2. When the \<open>query\<close> argument is a non-empty string whose upper-cased, trimmed text does
  not start with \<open>SELECT\<close>, the tool \<open>execute_query\<close> answers with the result flagged as an
  error \<open>only SELECT queries are allowed with execute_query\<close> and a nil error, and makes no
  call on the database: state and trace are the ones it started from.
\<close>

theorem execute_query_rejects_non_select:
  assumes "Params_Name request = ''execute_query''"
    and "ParseString L request ''query'' [] = query"
    and "query \<noteq> []"
    and "\<not> HasPrefix (TrimSpace L (ToUpper L query)) ''SELECT''"
  shows "HandleTool L E db request w =
           ((Some (NewToolResultError ''only SELECT queries are allowed with execute_query''), None), w)"
  using assms by (simp add: HandleTool_def handleExecuteQuery_def)

theorem execute_query_rejects_non_select_witness:
  "HandleTool sampleLib sampleEnv sampleDB (toolRequest ''execute_query'' ''query'' '' drop table users'')
     sampleWorld =
     ((Some (NewToolResultError ''only SELECT queries are allowed with execute_query''), None), sampleWorld)"
  by (rule execute_query_rejects_non_select [where query = "'' drop table users''"]) code_simp+

text \<open>
  C3. When the \<open>statement\<close> argument is a non-empty string whose upper-cased, trimmed text
  starts with \<open>SELECT\<close>, the tool \<open>execute_statement\<close> answers with the result flagged as an
  error \<open>SELECT queries should use execute_query tool\<close> and executes nothing.
\<close>

theorem execute_statement_rejects_select:
  assumes "Params_Name request = ''execute_statement''"
    and "ParseString L request ''statement'' [] = statement"
    and "statement \<noteq> []"
    and "HasPrefix (TrimSpace L (ToUpper L statement)) ''SELECT''"
  shows "HandleTool L E db request w =
           ((Some (NewToolResultError ''SELECT queries should use execute_query tool''), None), w)"
  using assms by (simp add: HandleTool_def handleExecuteStatement_def)

theorem execute_statement_rejects_select_witness:
  "HandleTool sampleLib sampleEnv sampleDB
     (toolRequest ''execute_statement'' ''statement'' ''  select * from users'') sampleWorld =
     ((Some (NewToolResultError ''SELECT queries should use execute_query tool''), None), sampleWorld)"
  by (rule execute_statement_rejects_select [where statement = "''  select * from users''"]) code_simp+

text \<open>The definitions that make up the sample installation and the wrapper's calls on it.\<close>

lemmas sample_defs =
  sampleLib_def brokenLib_def sampleEnv_def lockedEnv_def usersEnv_def sampleDB_def sampleWorld_def
  afterQuery_def afterExec_def toolRequest_def ParseString_def ParseArgument_def parseParameters_def
  Query_def Execute_def GetTables_def GetTableSchema_def emit_def nameOfRow_def makeRow_def
  convValue_def List.map_filter_def sqliteMode_def HasPrefix_def prod_eq_iff

text \<open>Every handler returns a result and a nil error on each of its paths.\<close>

lemma handleExecuteQuery_soft:
  "\<exists>result w'. handleExecuteQuery L E db request w = ((Some result, None), w')"
  by (simp add: handleExecuteQuery_def Let_def split: prod.splits sum.splits)

lemma handleExecuteStatement_soft:
  "\<exists>result w'. handleExecuteStatement L E db request w = ((Some result, None), w')"
  by (simp add: handleExecuteStatement_def Let_def split: prod.splits sum.splits)

lemma handleListTables_soft:
  "\<exists>result w'. handleListTables L E db request w = ((Some result, None), w')"
  by (simp add: handleListTables_def Let_def split: prod.splits sum.splits)

lemma handleDescribeTable_soft:
  "\<exists>result w'. handleDescribeTable L E db request w = ((Some result, None), w')"
  by (simp add: handleDescribeTable_def Let_def split: prod.splits sum.splits)

lemma HandleTool_soft:
  "\<exists>result. fst (HandleTool L E db request w) = (Some result, None)"
  using handleExecuteQuery_soft [of L E db request w] handleExecuteStatement_soft [of L E db request w]
    handleListTables_soft [of L E db request w] handleDescribeTable_soft [of L E db request w]
  by (auto simp: HandleTool_def)

text \<open>The two constructors of error results flag them and carry the text.\<close>

lemma error_results_flagged:
  "IsError (NewToolResultError text) \<and> Content (NewToolResultError text) = [text] \<and>
   IsError (NewToolResultErrorFromErr text err) \<and>
   Content (NewToolResultErrorFromErr text err) = [text @ '': '' @ err]"
  by (simp add: NewToolResultError_def NewToolResultErrorFromErr_def)

text \<open>
  C4. Whatever the tool name and the arguments, \<open>HandleTool\<close> returns a result and a nil
  error. Every failure is the text of a result flagged as an error: an unknown tool name
  (\<open>Unknown tool: <name>\<close>); a missing or empty required argument; text of the wrong kind
  for the tool; a failure of the SQL in \<open>Query\<close>, \<open>Execute\<close>, \<open>GetTables\<close> or
  \<open>GetTableSchema\<close>, whose message follows the handler's own; a table with no columns; and
  a failure to encode the answer as JSON.
\<close>

theorem HandleTool_never_faults:
  "(\<exists>result. fst (HandleTool L E db request w) = (Some result, None)) \<and>
   (Params_Name request \<notin> {''execute_query'', ''execute_statement'', ''list_tables'', ''describe_table''} \<longrightarrow>
      HandleTool L E db request w =
        ((Some (NewToolResultError (''Unknown tool: '' @ Params_Name request)), None), w)) \<and>
   (Params_Name request = ''execute_query'' \<and> ParseString L request ''query'' [] = [] \<longrightarrow>
      HandleTool L E db request w = ((Some (NewToolResultError ''query parameter is required''), None), w)) \<and>
   (Params_Name request = ''execute_query'' \<and> ParseString L request ''query'' [] = query \<and> query \<noteq> [] \<and>
    \<not> HasPrefix (TrimSpace L (ToUpper L query)) ''SELECT'' \<longrightarrow>
      HandleTool L E db request w =
        ((Some (NewToolResultError ''only SELECT queries are allowed with execute_query''), None), w)) \<and>
   (Params_Name request = ''execute_query'' \<and> ParseString L request ''query'' [] = query \<and> query \<noteq> [] \<and>
    HasPrefix (TrimSpace L (ToUpper L query)) ''SELECT'' \<and>
    Query E db query (parseParameters request) w = (Inl err, w') \<longrightarrow>
      HandleTool L E db request w =
        ((Some (NewToolResultErrorFromErr ''Query execution failed'' err), None), w')) \<and>
   (Params_Name request = ''execute_query'' \<and> ParseString L request ''query'' [] = query \<and> query \<noteq> [] \<and>
    HasPrefix (TrimSpace L (ToUpper L query)) ''SELECT'' \<and>
    Query E db query (parseParameters request) w = (Inr results, w') \<and> marshalRows L results = Inl err \<longrightarrow>
      HandleTool L E db request w =
        ((Some (NewToolResultErrorFromErr ''Failed to format results'' err), None), w')) \<and>
   (Params_Name request = ''execute_statement'' \<and> ParseString L request ''statement'' [] = [] \<longrightarrow>
      HandleTool L E db request w = ((Some (NewToolResultError ''statement parameter is required''), None), w)) \<and>
   (Params_Name request = ''execute_statement'' \<and> ParseString L request ''statement'' [] = statement \<and>
    statement \<noteq> [] \<and> HasPrefix (TrimSpace L (ToUpper L statement)) ''SELECT'' \<longrightarrow>
      HandleTool L E db request w =
        ((Some (NewToolResultError ''SELECT queries should use execute_query tool''), None), w)) \<and>
   (Params_Name request = ''execute_statement'' \<and> ParseString L request ''statement'' [] = statement \<and>
    statement \<noteq> [] \<and> \<not> HasPrefix (TrimSpace L (ToUpper L statement)) ''SELECT'' \<and>
    Execute E db statement (parseParameters request) w = (Inl err, w') \<longrightarrow>
      HandleTool L E db request w =
        ((Some (NewToolResultErrorFromErr ''Statement execution failed'' err), None), w')) \<and>
   (Params_Name request = ''list_tables'' \<and> GetTables E db w = (Inl err, w') \<longrightarrow>
      HandleTool L E db request w =
        ((Some (NewToolResultErrorFromErr ''Failed to list tables'' err), None), w')) \<and>
   (Params_Name request = ''list_tables'' \<and> GetTables E db w = (Inr tables, w') \<and> tables \<noteq> [] \<and>
    marshalStrings L tables = Inl err \<longrightarrow>
      HandleTool L E db request w =
        ((Some (NewToolResultErrorFromErr ''Failed to format table list'' err), None), w')) \<and>
   (Params_Name request = ''describe_table'' \<and> ParseString L request ''table_name'' [] = [] \<longrightarrow>
      HandleTool L E db request w = ((Some (NewToolResultError ''table_name parameter is required''), None), w)) \<and>
   (Params_Name request = ''describe_table'' \<and> ParseString L request ''table_name'' [] = tableName \<and>
    tableName \<noteq> [] \<and> GetTableSchema E db tableName w = (Inl err, w') \<longrightarrow>
      HandleTool L E db request w =
        ((Some (NewToolResultErrorFromErr (''Failed to describe table '' @ quoted tableName) err), None), w')) \<and>
   (Params_Name request = ''describe_table'' \<and> ParseString L request ''table_name'' [] = tableName \<and>
    tableName \<noteq> [] \<and> GetTableSchema E db tableName w = (Inr [], w') \<longrightarrow>
      HandleTool L E db request w =
        ((Some (NewToolResultError (''Table '' @ quoted tableName @ '' not found'')), None), w')) \<and>
   (Params_Name request = ''describe_table'' \<and> ParseString L request ''table_name'' [] = tableName \<and>
    tableName \<noteq> [] \<and> GetTableSchema E db tableName w = (Inr schema, w') \<and> schema \<noteq> [] \<and>
    marshalRows L schema = Inl err \<longrightarrow>
      HandleTool L E db request w =
        ((Some (NewToolResultErrorFromErr ''Failed to format schema'' err), None), w'))"
proof (intro conjI impI)
  show "\<exists>result. fst (HandleTool L E db request w) = (Some result, None)"
    by (rule HandleTool_soft)
qed (simp_all add: HandleTool_def handleExecuteQuery_def handleExecuteStatement_def
       handleListTables_def handleDescribeTable_def)

theorem HandleTool_never_faults_witness:
  "fst (HandleTool sampleLib sampleEnv sampleDB
         (\<lparr>Params_Name = ''unknown_tool'', Params_Arguments = Map.empty\<rparr>) sampleWorld) =
     (Some \<lparr>Content = [''Unknown tool: unknown_tool''], IsError = True\<rparr>, None) \<and>
   fst (HandleTool sampleLib sampleEnv sampleDB
         (\<lparr>Params_Name = ''execute_query'', Params_Arguments = Map.empty\<rparr>) sampleWorld) =
     (Some \<lparr>Content = [''query parameter is required''], IsError = True\<rparr>, None) \<and>
   fst (HandleTool sampleLib sampleEnv sampleDB
         (toolRequest ''execute_query'' ''query'' '' drop table users'') sampleWorld) =
     (Some \<lparr>Content = [''only SELECT queries are allowed with execute_query''], IsError = True\<rparr>, None) \<and>
   fst (HandleTool sampleLib sampleEnv sampleDB
         (toolRequest ''execute_query'' ''query'' ''SELECT * FROM missing'') sampleWorld) =
     (Some \<lparr>Content = [''Query execution failed: query failed: no such table: missing''], IsError = True\<rparr>, None) \<and>
   fst (HandleTool brokenLib sampleEnv sampleDB
         (toolRequest ''execute_query'' ''query'' ''select 1'') sampleWorld) =
     (Some \<lparr>Content = [''Failed to format results: json: unsupported value: NaN''], IsError = True\<rparr>, None) \<and>
   fst (HandleTool sampleLib sampleEnv sampleDB
         (\<lparr>Params_Name = ''execute_statement'', Params_Arguments = Map.empty\<rparr>) sampleWorld) =
     (Some \<lparr>Content = [''statement parameter is required''], IsError = True\<rparr>, None) \<and>
   fst (HandleTool sampleLib sampleEnv sampleDB
         (toolRequest ''execute_statement'' ''statement'' ''  select * from users'') sampleWorld) =
     (Some \<lparr>Content = [''SELECT queries should use execute_query tool''], IsError = True\<rparr>, None) \<and>
   fst (HandleTool sampleLib sampleEnv sampleDB
         (toolRequest ''execute_statement'' ''statement'' ''DELETE FROM missing'') sampleWorld) =
     (Some \<lparr>Content = [''Statement execution failed: execution failed: no such table: missing''], IsError = True\<rparr>, None) \<and>
   fst (HandleTool sampleLib lockedEnv sampleDB
         (\<lparr>Params_Name = ''list_tables'', Params_Arguments = Map.empty\<rparr>) sampleWorld) =
     (Some \<lparr>Content = [''Failed to list tables: query failed: database is locked''], IsError = True\<rparr>, None) \<and>
   fst (HandleTool brokenLib usersEnv sampleDB
         (\<lparr>Params_Name = ''list_tables'', Params_Arguments = Map.empty\<rparr>) sampleWorld) =
     (Some \<lparr>Content = [''Failed to format table list: json: unsupported value: NaN''], IsError = True\<rparr>, None) \<and>
   fst (HandleTool sampleLib sampleEnv sampleDB
         (\<lparr>Params_Name = ''describe_table'', Params_Arguments = Map.empty\<rparr>) sampleWorld) =
     (Some \<lparr>Content = [''table_name parameter is required''], IsError = True\<rparr>, None) \<and>
   fst (HandleTool sampleLib lockedEnv sampleDB
         (toolRequest ''describe_table'' ''table_name'' ''users'') sampleWorld) =
     (Some \<lparr>Content = [''Failed to describe table '' @ quoted ''users'' @ '': query failed: database is locked''], IsError = True\<rparr>, None) \<and>
   fst (HandleTool sampleLib sampleEnv sampleDB
         (toolRequest ''describe_table'' ''table_name'' ''nosuchtable'') sampleWorld) =
     (Some \<lparr>Content = [''Table '' @ quoted ''nosuchtable'' @ '' not found''], IsError = True\<rparr>, None) \<and>
   fst (HandleTool brokenLib usersEnv sampleDB
         (toolRequest ''describe_table'' ''table_name'' ''users'') sampleWorld) =
     (Some \<lparr>Content = [''Failed to format schema: json: unsupported value: NaN''], IsError = True\<rparr>, None)"
proof -
  have h_u_0:
    "Params_Name (\<lparr>Params_Name = ''unknown_tool'', Params_Arguments =
        Map.empty\<rparr>) \<notin> {''execute_query'', ''execute_statement'', ''list_tables'', ''describe_table''}"
    by (simp add: sample_defs)
  have h_u:
    "Params_Name (\<lparr>Params_Name = ''unknown_tool'', Params_Arguments =
         Map.empty\<rparr>) \<notin> {''execute_query'', ''execute_statement'', ''list_tables'', ''describe_table''}"
    by ((intro conjI)?, (fact h_u_0)+)
  note t_u = HandleTool_never_faults
    [where L = sampleLib
       and E = sampleEnv
       and db = sampleDB
       and request = "\<lparr>Params_Name = ''unknown_tool'', Params_Arguments = Map.empty\<rparr>"
       and w = sampleWorld,
      THEN conjunct2, THEN conjunct1, THEN mp, OF h_u]
  have r_u:
    "fst (HandleTool sampleLib sampleEnv sampleDB
           (\<lparr>Params_Name = ''unknown_tool'', Params_Arguments = Map.empty\<rparr>) sampleWorld) =
       (Some \<lparr>Content = [''Unknown tool: unknown_tool''], IsError = True\<rparr>, None)"
    using t_u by (simp add: NewToolResultError_def NewToolResultErrorFromErr_def)
  have h_q1_0:
    "Params_Name (\<lparr>Params_Name = ''execute_query'', Params_Arguments = Map.empty\<rparr>) =
        ''execute_query''"
    by (code_simp)
  have h_q1_1:
    "ParseString sampleLib (\<lparr>Params_Name = ''execute_query'', Params_Arguments = Map.empty\<rparr>) ''query'' [] =
        []"
    by (code_simp)
  have h_q1:
    "Params_Name (\<lparr>Params_Name = ''execute_query'', Params_Arguments = Map.empty\<rparr>) =
         ''execute_query'' \<and>
     ParseString sampleLib (\<lparr>Params_Name = ''execute_query'', Params_Arguments = Map.empty\<rparr>) ''query'' [] =
         []"
    by ((intro conjI)?, (fact h_q1_0 h_q1_1)+)
  note t_q1 = HandleTool_never_faults
    [where L = sampleLib
       and E = sampleEnv
       and db = sampleDB
       and request = "\<lparr>Params_Name = ''execute_query'', Params_Arguments = Map.empty\<rparr>"
       and w = sampleWorld,
      THEN conjunct2, THEN conjunct2, THEN conjunct1, THEN mp, OF h_q1]
  have r_q1:
    "fst (HandleTool sampleLib sampleEnv sampleDB
           (\<lparr>Params_Name = ''execute_query'', Params_Arguments = Map.empty\<rparr>) sampleWorld) =
       (Some \<lparr>Content = [''query parameter is required''], IsError = True\<rparr>, None)"
    using t_q1 by (simp add: NewToolResultError_def NewToolResultErrorFromErr_def)
  have h_q2_0:
    "Params_Name (toolRequest ''execute_query'' ''query'' '' drop table users'') =
        ''execute_query''"
    by (code_simp)
  have h_q2_1:
    "ParseString sampleLib (toolRequest ''execute_query'' ''query'' '' drop table users'') ''query'' [] =
        '' drop table users''"
    by (code_simp)
  have h_q2_2:
    "'' drop table users'' \<noteq> []"
    by (simp add: sample_defs)
  have h_q2_3:
    "\<not> HasPrefix (TrimSpace sampleLib (ToUpper sampleLib '' drop table users'')) ''SELECT''"
    by (code_simp)
  have h_q2:
    "Params_Name (toolRequest ''execute_query'' ''query'' '' drop table users'') =
         ''execute_query'' \<and>
     ParseString sampleLib (toolRequest ''execute_query'' ''query'' '' drop table users'') ''query'' [] =
         '' drop table users'' \<and>
     '' drop table users'' \<noteq> [] \<and>
     \<not> HasPrefix (TrimSpace sampleLib (ToUpper sampleLib '' drop table users'')) ''SELECT''"
    by ((intro conjI)?, (fact h_q2_0 h_q2_1 h_q2_2 h_q2_3)+)
  note t_q2 = HandleTool_never_faults
    [where L = sampleLib
       and E = sampleEnv
       and db = sampleDB
       and request = "toolRequest ''execute_query'' ''query'' '' drop table users''"
       and w = sampleWorld
       and query = "'' drop table users''",
      THEN conjunct2, THEN conjunct2, THEN conjunct2, THEN conjunct1, THEN mp, OF h_q2]
  have r_q2:
    "fst (HandleTool sampleLib sampleEnv sampleDB
           (toolRequest ''execute_query'' ''query'' '' drop table users'') sampleWorld) =
       (Some \<lparr>Content = [''only SELECT queries are allowed with execute_query''], IsError = True\<rparr>, None)"
    using t_q2 by (simp add: NewToolResultError_def NewToolResultErrorFromErr_def)
  have h_q3_0:
    "Params_Name (toolRequest ''execute_query'' ''query'' ''SELECT * FROM missing'') =
        ''execute_query''"
    by (code_simp)
  have h_q3_1:
    "ParseString sampleLib (toolRequest ''execute_query'' ''query'' ''SELECT * FROM missing'') ''query'' [] =
        ''SELECT * FROM missing''"
    by (code_simp)
  have h_q3_2:
    "''SELECT * FROM missing'' \<noteq> []"
    by (simp add: sample_defs)
  have h_q3_3:
    "HasPrefix (TrimSpace sampleLib (ToUpper sampleLib ''SELECT * FROM missing'')) ''SELECT''"
    by (code_simp)
  have h_q3_4:
    "Query sampleEnv sampleDB ''SELECT * FROM missing'' (parseParameters (toolRequest ''execute_query'' ''query'' ''SELECT * FROM missing'')) sampleWorld =
        (Inl ''query failed: no such table: missing'', afterQuery ''SELECT * FROM missing'')"
    by (simp add: sample_defs)
  have h_q3:
    "Params_Name (toolRequest ''execute_query'' ''query'' ''SELECT * FROM missing'') =
         ''execute_query'' \<and>
     ParseString sampleLib (toolRequest ''execute_query'' ''query'' ''SELECT * FROM missing'') ''query'' [] =
         ''SELECT * FROM missing'' \<and>
     ''SELECT * FROM missing'' \<noteq> [] \<and>
     HasPrefix (TrimSpace sampleLib (ToUpper sampleLib ''SELECT * FROM missing'')) ''SELECT'' \<and>
     Query sampleEnv sampleDB ''SELECT * FROM missing'' (parseParameters (toolRequest ''execute_query'' ''query'' ''SELECT * FROM missing'')) sampleWorld =
         (Inl ''query failed: no such table: missing'', afterQuery ''SELECT * FROM missing'')"
    by ((intro conjI)?, (fact h_q3_0 h_q3_1 h_q3_2 h_q3_3 h_q3_4)+)
  note t_q3 = HandleTool_never_faults
    [where L = sampleLib
       and E = sampleEnv
       and db = sampleDB
       and request = "toolRequest ''execute_query'' ''query'' ''SELECT * FROM missing''"
       and w = sampleWorld
       and query = "''SELECT * FROM missing''"
       and err = "''query failed: no such table: missing''"
       and w' = "afterQuery ''SELECT * FROM missing''",
      THEN conjunct2, THEN conjunct2, THEN conjunct2, THEN conjunct2, THEN conjunct1, THEN mp, OF h_q3]
  have r_q3:
    "fst (HandleTool sampleLib sampleEnv sampleDB
           (toolRequest ''execute_query'' ''query'' ''SELECT * FROM missing'') sampleWorld) =
       (Some \<lparr>Content = [''Query execution failed: query failed: no such table: missing''], IsError = True\<rparr>, None)"
    using t_q3 by (simp add: NewToolResultError_def NewToolResultErrorFromErr_def)
  have h_q4_0:
    "Params_Name (toolRequest ''execute_query'' ''query'' ''select 1'') = ''execute_query''"
    by (code_simp)
  have h_q4_1:
    "ParseString brokenLib (toolRequest ''execute_query'' ''query'' ''select 1'') ''query'' [] =
        ''select 1''"
    by (code_simp)
  have h_q4_2:
    "''select 1'' \<noteq> []"
    by (simp add: sample_defs)
  have h_q4_3:
    "HasPrefix (TrimSpace brokenLib (ToUpper brokenLib ''select 1'')) ''SELECT''"
    by (code_simp)
  have h_q4_4:
    "Query sampleEnv sampleDB ''select 1'' (parseParameters (toolRequest ''execute_query'' ''query'' ''select 1'')) sampleWorld =
        (Inr [], afterQuery ''select 1'')"
    by (simp add: sample_defs)
  have h_q4_5:
    "marshalRows brokenLib [] = Inl ''json: unsupported value: NaN''"
    by (simp add: sample_defs)
  have h_q4:
    "Params_Name (toolRequest ''execute_query'' ''query'' ''select 1'') = ''execute_query'' \<and>
     ParseString brokenLib (toolRequest ''execute_query'' ''query'' ''select 1'') ''query'' [] =
         ''select 1'' \<and>
     ''select 1'' \<noteq> [] \<and>
     HasPrefix (TrimSpace brokenLib (ToUpper brokenLib ''select 1'')) ''SELECT'' \<and>
     Query sampleEnv sampleDB ''select 1'' (parseParameters (toolRequest ''execute_query'' ''query'' ''select 1'')) sampleWorld =
         (Inr [], afterQuery ''select 1'') \<and>
     marshalRows brokenLib [] = Inl ''json: unsupported value: NaN''"
    by ((intro conjI)?, (fact h_q4_0 h_q4_1 h_q4_2 h_q4_3 h_q4_4 h_q4_5)+)
  note t_q4 = HandleTool_never_faults
    [where L = brokenLib
       and E = sampleEnv
       and db = sampleDB
       and request = "toolRequest ''execute_query'' ''query'' ''select 1''"
       and w = sampleWorld
       and query = "''select 1''"
       and err = "''json: unsupported value: NaN''"
       and w' = "afterQuery ''select 1''"
       and results = "[]",
      THEN conjunct2, THEN conjunct2, THEN conjunct2, THEN conjunct2, THEN conjunct2,
      THEN conjunct1, THEN mp, OF h_q4]
  have r_q4:
    "fst (HandleTool brokenLib sampleEnv sampleDB
           (toolRequest ''execute_query'' ''query'' ''select 1'') sampleWorld) =
       (Some \<lparr>Content = [''Failed to format results: json: unsupported value: NaN''], IsError = True\<rparr>, None)"
    using t_q4 by (simp add: NewToolResultError_def NewToolResultErrorFromErr_def)
  have h_s1_0:
    "Params_Name (\<lparr>Params_Name = ''execute_statement'', Params_Arguments = Map.empty\<rparr>) =
        ''execute_statement''"
    by (code_simp)
  have h_s1_1:
    "ParseString sampleLib (\<lparr>Params_Name = ''execute_statement'', Params_Arguments = Map.empty\<rparr>) ''statement'' [] =
        []"
    by (code_simp)
  have h_s1:
    "Params_Name (\<lparr>Params_Name = ''execute_statement'', Params_Arguments = Map.empty\<rparr>) =
         ''execute_statement'' \<and>
     ParseString sampleLib (\<lparr>Params_Name = ''execute_statement'', Params_Arguments = Map.empty\<rparr>) ''statement'' [] =
         []"
    by ((intro conjI)?, (fact h_s1_0 h_s1_1)+)
  note t_s1 = HandleTool_never_faults
    [where L = sampleLib
       and E = sampleEnv
       and db = sampleDB
       and request = "\<lparr>Params_Name = ''execute_statement'', Params_Arguments = Map.empty\<rparr>"
       and w = sampleWorld,
      THEN conjunct2, THEN conjunct2, THEN conjunct2, THEN conjunct2, THEN conjunct2,
      THEN conjunct2, THEN conjunct1, THEN mp, OF h_s1]
  have r_s1:
    "fst (HandleTool sampleLib sampleEnv sampleDB
           (\<lparr>Params_Name = ''execute_statement'', Params_Arguments = Map.empty\<rparr>) sampleWorld) =
       (Some \<lparr>Content = [''statement parameter is required''], IsError = True\<rparr>, None)"
    using t_s1 by (simp add: NewToolResultError_def NewToolResultErrorFromErr_def)
  have h_s2_0:
    "Params_Name (toolRequest ''execute_statement'' ''statement'' ''  select * from users'') =
        ''execute_statement''"
    by (code_simp)
  have h_s2_1:
    "ParseString sampleLib (toolRequest ''execute_statement'' ''statement'' ''  select * from users'') ''statement'' [] =
        ''  select * from users''"
    by (code_simp)
  have h_s2_2:
    "''  select * from users'' \<noteq> []"
    by (simp add: sample_defs)
  have h_s2_3:
    "HasPrefix (TrimSpace sampleLib (ToUpper sampleLib ''  select * from users'')) ''SELECT''"
    by (code_simp)
  have h_s2:
    "Params_Name (toolRequest ''execute_statement'' ''statement'' ''  select * from users'') =
         ''execute_statement'' \<and>
     ParseString sampleLib (toolRequest ''execute_statement'' ''statement'' ''  select * from users'') ''statement'' [] =
         ''  select * from users'' \<and>
     ''  select * from users'' \<noteq> [] \<and>
     HasPrefix (TrimSpace sampleLib (ToUpper sampleLib ''  select * from users'')) ''SELECT''"
    by ((intro conjI)?, (fact h_s2_0 h_s2_1 h_s2_2 h_s2_3)+)
  note t_s2 = HandleTool_never_faults
    [where L = sampleLib
       and E = sampleEnv
       and db = sampleDB
       and request = "toolRequest ''execute_statement'' ''statement'' ''  select * from users''"
       and w = sampleWorld
       and statement = "''  select * from users''",
      THEN conjunct2, THEN conjunct2, THEN conjunct2, THEN conjunct2, THEN conjunct2,
      THEN conjunct2, THEN conjunct2, THEN conjunct1, THEN mp, OF h_s2]
  have r_s2:
    "fst (HandleTool sampleLib sampleEnv sampleDB
           (toolRequest ''execute_statement'' ''statement'' ''  select * from users'') sampleWorld) =
       (Some \<lparr>Content = [''SELECT queries should use execute_query tool''], IsError = True\<rparr>, None)"
    using t_s2 by (simp add: NewToolResultError_def NewToolResultErrorFromErr_def)
  have h_s3_0:
    "Params_Name (toolRequest ''execute_statement'' ''statement'' ''DELETE FROM missing'') =
        ''execute_statement''"
    by (code_simp)
  have h_s3_1:
    "ParseString sampleLib (toolRequest ''execute_statement'' ''statement'' ''DELETE FROM missing'') ''statement'' [] =
        ''DELETE FROM missing''"
    by (code_simp)
  have h_s3_2:
    "''DELETE FROM missing'' \<noteq> []"
    by (simp add: sample_defs)
  have h_s3_3:
    "\<not> HasPrefix (TrimSpace sampleLib (ToUpper sampleLib ''DELETE FROM missing'')) ''SELECT''"
    by (code_simp)
  have h_s3_4:
    "Execute sampleEnv sampleDB ''DELETE FROM missing'' (parseParameters (toolRequest ''execute_statement'' ''statement'' ''DELETE FROM missing'')) sampleWorld =
        (Inl ''execution failed: no such table: missing'', afterExec ''DELETE FROM missing'')"
    by (simp add: sample_defs)
  have h_s3:
    "Params_Name (toolRequest ''execute_statement'' ''statement'' ''DELETE FROM missing'') =
         ''execute_statement'' \<and>
     ParseString sampleLib (toolRequest ''execute_statement'' ''statement'' ''DELETE FROM missing'') ''statement'' [] =
         ''DELETE FROM missing'' \<and>
     ''DELETE FROM missing'' \<noteq> [] \<and>
     \<not> HasPrefix (TrimSpace sampleLib (ToUpper sampleLib ''DELETE FROM missing'')) ''SELECT'' \<and>
     Execute sampleEnv sampleDB ''DELETE FROM missing'' (parseParameters (toolRequest ''execute_statement'' ''statement'' ''DELETE FROM missing'')) sampleWorld =
         (Inl ''execution failed: no such table: missing'', afterExec ''DELETE FROM missing'')"
    by ((intro conjI)?, (fact h_s3_0 h_s3_1 h_s3_2 h_s3_3 h_s3_4)+)
  note t_s3 = HandleTool_never_faults
    [where L = sampleLib
       and E = sampleEnv
       and db = sampleDB
       and request = "toolRequest ''execute_statement'' ''statement'' ''DELETE FROM missing''"
       and w = sampleWorld
       and statement = "''DELETE FROM missing''"
       and err = "''execution failed: no such table: missing''"
       and w' = "afterExec ''DELETE FROM missing''",
      THEN conjunct2, THEN conjunct2, THEN conjunct2, THEN conjunct2, THEN conjunct2,
      THEN conjunct2, THEN conjunct2, THEN conjunct2, THEN conjunct1, THEN mp, OF h_s3]
  have r_s3:
    "fst (HandleTool sampleLib sampleEnv sampleDB
           (toolRequest ''execute_statement'' ''statement'' ''DELETE FROM missing'') sampleWorld) =
       (Some \<lparr>Content = [''Statement execution failed: execution failed: no such table: missing''], IsError = True\<rparr>, None)"
    using t_s3 by (simp add: NewToolResultError_def NewToolResultErrorFromErr_def)
  have h_l1_0:
    "Params_Name (\<lparr>Params_Name = ''list_tables'', Params_Arguments = Map.empty\<rparr>) =
        ''list_tables''"
    by (code_simp)
  have h_l1_1:
    "GetTables lockedEnv sampleDB sampleWorld =
        (Inl ''query failed: database is locked'', snd (GetTables lockedEnv sampleDB sampleWorld))"
    by (simp add: sample_defs)
  have h_l1:
    "Params_Name (\<lparr>Params_Name = ''list_tables'', Params_Arguments = Map.empty\<rparr>) =
         ''list_tables'' \<and>
     GetTables lockedEnv sampleDB sampleWorld =
         (Inl ''query failed: database is locked'', snd (GetTables lockedEnv sampleDB sampleWorld))"
    by ((intro conjI)?, (fact h_l1_0 h_l1_1)+)
  note t_l1 = HandleTool_never_faults
    [where L = sampleLib
       and E = lockedEnv
       and db = sampleDB
       and request = "\<lparr>Params_Name = ''list_tables'', Params_Arguments = Map.empty\<rparr>"
       and w = sampleWorld
       and err = "''query failed: database is locked''"
       and w' = "snd (GetTables lockedEnv sampleDB sampleWorld)",
      THEN conjunct2, THEN conjunct2, THEN conjunct2, THEN conjunct2, THEN conjunct2,
      THEN conjunct2, THEN conjunct2, THEN conjunct2, THEN conjunct2, THEN conjunct1, THEN mp, OF h_l1]
  have r_l1:
    "fst (HandleTool sampleLib lockedEnv sampleDB
           (\<lparr>Params_Name = ''list_tables'', Params_Arguments = Map.empty\<rparr>) sampleWorld) =
       (Some \<lparr>Content = [''Failed to list tables: query failed: database is locked''], IsError = True\<rparr>, None)"
    using t_l1 by (simp add: NewToolResultError_def NewToolResultErrorFromErr_def)
  have h_l2_0:
    "Params_Name (\<lparr>Params_Name = ''list_tables'', Params_Arguments = Map.empty\<rparr>) =
        ''list_tables''"
    by (code_simp)
  have h_l2_1:
    "GetTables usersEnv sampleDB sampleWorld =
        (Inr [''users''], snd (GetTables usersEnv sampleDB sampleWorld))"
    by (simp add: sample_defs)
  have h_l2_2:
    "[''users''] \<noteq> []"
    by (simp add: sample_defs)
  have h_l2_3:
    "marshalStrings brokenLib [''users''] = Inl ''json: unsupported value: NaN''"
    by (simp add: sample_defs)
  have h_l2:
    "Params_Name (\<lparr>Params_Name = ''list_tables'', Params_Arguments = Map.empty\<rparr>) =
         ''list_tables'' \<and>
     GetTables usersEnv sampleDB sampleWorld =
         (Inr [''users''], snd (GetTables usersEnv sampleDB sampleWorld)) \<and>
     [''users''] \<noteq> [] \<and>
     marshalStrings brokenLib [''users''] = Inl ''json: unsupported value: NaN''"
    by ((intro conjI)?, (fact h_l2_0 h_l2_1 h_l2_2 h_l2_3)+)
  note t_l2 = HandleTool_never_faults
    [where L = brokenLib
       and E = usersEnv
       and db = sampleDB
       and request = "\<lparr>Params_Name = ''list_tables'', Params_Arguments = Map.empty\<rparr>"
       and w = sampleWorld
       and err = "''json: unsupported value: NaN''"
       and w' = "snd (GetTables usersEnv sampleDB sampleWorld)"
       and tables = "[''users'']",
      THEN conjunct2, THEN conjunct2, THEN conjunct2, THEN conjunct2, THEN conjunct2,
      THEN conjunct2, THEN conjunct2, THEN conjunct2, THEN conjunct2, THEN conjunct2,
      THEN conjunct1, THEN mp, OF h_l2]
  have r_l2:
    "fst (HandleTool brokenLib usersEnv sampleDB
           (\<lparr>Params_Name = ''list_tables'', Params_Arguments = Map.empty\<rparr>) sampleWorld) =
       (Some \<lparr>Content = [''Failed to format table list: json: unsupported value: NaN''], IsError = True\<rparr>, None)"
    using t_l2 by (simp add: NewToolResultError_def NewToolResultErrorFromErr_def)
  have h_d1_0:
    "Params_Name (\<lparr>Params_Name = ''describe_table'', Params_Arguments = Map.empty\<rparr>) =
        ''describe_table''"
    by (code_simp)
  have h_d1_1:
    "ParseString sampleLib (\<lparr>Params_Name = ''describe_table'', Params_Arguments = Map.empty\<rparr>) ''table_name'' [] =
        []"
    by (code_simp)
  have h_d1:
    "Params_Name (\<lparr>Params_Name = ''describe_table'', Params_Arguments = Map.empty\<rparr>) =
         ''describe_table'' \<and>
     ParseString sampleLib (\<lparr>Params_Name = ''describe_table'', Params_Arguments = Map.empty\<rparr>) ''table_name'' [] =
         []"
    by ((intro conjI)?, (fact h_d1_0 h_d1_1)+)
  note t_d1 = HandleTool_never_faults
    [where L = sampleLib
       and E = sampleEnv
       and db = sampleDB
       and request = "\<lparr>Params_Name = ''describe_table'', Params_Arguments = Map.empty\<rparr>"
       and w = sampleWorld,
      THEN conjunct2, THEN conjunct2, THEN conjunct2, THEN conjunct2, THEN conjunct2,
      THEN conjunct2, THEN conjunct2, THEN conjunct2, THEN conjunct2, THEN conjunct2,
      THEN conjunct2, THEN conjunct1, THEN mp, OF h_d1]
  have r_d1:
    "fst (HandleTool sampleLib sampleEnv sampleDB
           (\<lparr>Params_Name = ''describe_table'', Params_Arguments = Map.empty\<rparr>) sampleWorld) =
       (Some \<lparr>Content = [''table_name parameter is required''], IsError = True\<rparr>, None)"
    using t_d1 by (simp add: NewToolResultError_def NewToolResultErrorFromErr_def)
  have h_d2_0:
    "Params_Name (toolRequest ''describe_table'' ''table_name'' ''users'') = ''describe_table''"
    by (code_simp)
  have h_d2_1:
    "ParseString sampleLib (toolRequest ''describe_table'' ''table_name'' ''users'') ''table_name'' [] =
        ''users''"
    by (code_simp)
  have h_d2_2:
    "''users'' \<noteq> []"
    by (simp add: sample_defs)
  have h_d2_3:
    "GetTableSchema lockedEnv sampleDB ''users'' sampleWorld =
        (Inl ''query failed: database is locked'', afterQuery ''PRAGMA table_info(users)'')"
    by (simp add: sample_defs)
  have h_d2:
    "Params_Name (toolRequest ''describe_table'' ''table_name'' ''users'') = ''describe_table'' \<and>
     ParseString sampleLib (toolRequest ''describe_table'' ''table_name'' ''users'') ''table_name'' [] =
         ''users'' \<and>
     ''users'' \<noteq> [] \<and>
     GetTableSchema lockedEnv sampleDB ''users'' sampleWorld =
         (Inl ''query failed: database is locked'', afterQuery ''PRAGMA table_info(users)'')"
    by ((intro conjI)?, (fact h_d2_0 h_d2_1 h_d2_2 h_d2_3)+)
  note t_d2 = HandleTool_never_faults
    [where L = sampleLib
       and E = lockedEnv
       and db = sampleDB
       and request = "toolRequest ''describe_table'' ''table_name'' ''users''"
       and w = sampleWorld
       and tableName = "''users''"
       and err = "''query failed: database is locked''"
       and w' = "afterQuery ''PRAGMA table_info(users)''",
      THEN conjunct2, THEN conjunct2, THEN conjunct2, THEN conjunct2, THEN conjunct2,
      THEN conjunct2, THEN conjunct2, THEN conjunct2, THEN conjunct2, THEN conjunct2,
      THEN conjunct2, THEN conjunct2, THEN conjunct1, THEN mp, OF h_d2]
  have r_d2:
    "fst (HandleTool sampleLib lockedEnv sampleDB
           (toolRequest ''describe_table'' ''table_name'' ''users'') sampleWorld) =
       (Some \<lparr>Content = [''Failed to describe table '' @ quoted ''users'' @ '': query failed: database is locked''], IsError = True\<rparr>, None)"
    using t_d2 by (simp add: NewToolResultError_def NewToolResultErrorFromErr_def)
  have h_d3_0:
    "Params_Name (toolRequest ''describe_table'' ''table_name'' ''nosuchtable'') =
        ''describe_table''"
    by (code_simp)
  have h_d3_1:
    "ParseString sampleLib (toolRequest ''describe_table'' ''table_name'' ''nosuchtable'') ''table_name'' [] =
        ''nosuchtable''"
    by (code_simp)
  have h_d3_2:
    "''nosuchtable'' \<noteq> []"
    by (simp add: sample_defs)
  have h_d3_3:
    "GetTableSchema sampleEnv sampleDB ''nosuchtable'' sampleWorld =
        (Inr [], afterQuery ''PRAGMA table_info(nosuchtable)'')"
    by (simp add: sample_defs)
  have h_d3:
    "Params_Name (toolRequest ''describe_table'' ''table_name'' ''nosuchtable'') =
         ''describe_table'' \<and>
     ParseString sampleLib (toolRequest ''describe_table'' ''table_name'' ''nosuchtable'') ''table_name'' [] =
         ''nosuchtable'' \<and>
     ''nosuchtable'' \<noteq> [] \<and>
     GetTableSchema sampleEnv sampleDB ''nosuchtable'' sampleWorld =
         (Inr [], afterQuery ''PRAGMA table_info(nosuchtable)'')"
    by ((intro conjI)?, (fact h_d3_0 h_d3_1 h_d3_2 h_d3_3)+)
  note t_d3 = HandleTool_never_faults
    [where L = sampleLib
       and E = sampleEnv
       and db = sampleDB
       and request = "toolRequest ''describe_table'' ''table_name'' ''nosuchtable''"
       and w = sampleWorld
       and tableName = "''nosuchtable''"
       and w' = "afterQuery ''PRAGMA table_info(nosuchtable)''",
      THEN conjunct2, THEN conjunct2, THEN conjunct2, THEN conjunct2, THEN conjunct2,
      THEN conjunct2, THEN conjunct2, THEN conjunct2, THEN conjunct2, THEN conjunct2,
      THEN conjunct2, THEN conjunct2, THEN conjunct2, THEN conjunct1, THEN mp, OF h_d3]
  have r_d3:
    "fst (HandleTool sampleLib sampleEnv sampleDB
           (toolRequest ''describe_table'' ''table_name'' ''nosuchtable'') sampleWorld) =
       (Some \<lparr>Content = [''Table '' @ quoted ''nosuchtable'' @ '' not found''], IsError = True\<rparr>, None)"
    using t_d3 by (simp add: NewToolResultError_def NewToolResultErrorFromErr_def)
  have h_d4_0:
    "Params_Name (toolRequest ''describe_table'' ''table_name'' ''users'') = ''describe_table''"
    by (code_simp)
  have h_d4_1:
    "ParseString brokenLib (toolRequest ''describe_table'' ''table_name'' ''users'') ''table_name'' [] =
        ''users''"
    by (code_simp)
  have h_d4_2:
    "''users'' \<noteq> []"
    by (simp add: sample_defs)
  have h_d4_3:
    "GetTableSchema usersEnv sampleDB ''users'' sampleWorld =
        (Inr [makeRow [''name''] [VStr ''users'']], afterQuery ''PRAGMA table_info(users)'')"
    by (simp add: sample_defs)
  have h_d4_4:
    "[makeRow [''name''] [VStr ''users'']] \<noteq> []"
    by (simp add: sample_defs)
  have h_d4_5:
    "marshalRows brokenLib [makeRow [''name''] [VStr ''users'']] =
        Inl ''json: unsupported value: NaN''"
    by (simp add: sample_defs)
  have h_d4:
    "Params_Name (toolRequest ''describe_table'' ''table_name'' ''users'') = ''describe_table'' \<and>
     ParseString brokenLib (toolRequest ''describe_table'' ''table_name'' ''users'') ''table_name'' [] =
         ''users'' \<and>
     ''users'' \<noteq> [] \<and>
     GetTableSchema usersEnv sampleDB ''users'' sampleWorld =
         (Inr [makeRow [''name''] [VStr ''users'']], afterQuery ''PRAGMA table_info(users)'') \<and>
     [makeRow [''name''] [VStr ''users'']] \<noteq> [] \<and>
     marshalRows brokenLib [makeRow [''name''] [VStr ''users'']] =
         Inl ''json: unsupported value: NaN''"
    by ((intro conjI)?, (fact h_d4_0 h_d4_1 h_d4_2 h_d4_3 h_d4_4 h_d4_5)+)
  note t_d4 = HandleTool_never_faults
    [where L = brokenLib
       and E = usersEnv
       and db = sampleDB
       and request = "toolRequest ''describe_table'' ''table_name'' ''users''"
       and w = sampleWorld
       and tableName = "''users''"
       and err = "''json: unsupported value: NaN''"
       and w' = "afterQuery ''PRAGMA table_info(users)''"
       and schema = "[makeRow [''name''] [VStr ''users'']]",
      THEN conjunct2, THEN conjunct2, THEN conjunct2, THEN conjunct2, THEN conjunct2,
      THEN conjunct2, THEN conjunct2, THEN conjunct2, THEN conjunct2, THEN conjunct2,
      THEN conjunct2, THEN conjunct2, THEN conjunct2, THEN conjunct2, THEN mp, OF h_d4]
  have r_d4:
    "fst (HandleTool brokenLib usersEnv sampleDB
           (toolRequest ''describe_table'' ''table_name'' ''users'') sampleWorld) =
       (Some \<lparr>Content = [''Failed to format schema: json: unsupported value: NaN''], IsError = True\<rparr>, None)"
    using t_d4 by (simp add: NewToolResultError_def NewToolResultErrorFromErr_def)
  show ?thesis
    by (intro conjI) (fact r_u r_q1 r_q2 r_q3 r_q4 r_s1 r_s2 r_s3 r_l1 r_l2 r_d1 r_d2 r_d3 r_d4)+
qed

text \<open>
  C9. Give the same non-empty text to both tools: \<open>execute_query\<close> lets it past its
  \<open>SELECT\<close> check exactly when \<open>execute_statement\<close> turns it away at its own.
\<close>

theorem select_gates_complementary:
  assumes "ParseString L queryRequest ''query'' [] = s"
    and "ParseString L statementRequest ''statement'' [] = s"
    and "s \<noteq> []"
  shows "(fst (handleExecuteQuery L E db queryRequest w)
            \<noteq> (Some (NewToolResultError ''only SELECT queries are allowed with execute_query''), None))
         = (fst (handleExecuteStatement L E' db' statementRequest w')
            = (Some (NewToolResultError ''SELECT queries should use execute_query tool''), None))"
  using assms
  by (simp add: handleExecuteQuery_def handleExecuteStatement_def Let_def
        NewToolResultError_def NewToolResultErrorFromErr_def NewToolResultText_def
      split: prod.splits sum.splits)

theorem select_gates_complementary_witness:
  "fst (handleExecuteQuery sampleLib sampleEnv sampleDB (toolRequest ''execute_query'' ''query'' ''select 1'')
          sampleWorld)
     \<noteq> (Some (NewToolResultError ''only SELECT queries are allowed with execute_query''), None)"
proof -
  have q: "ParseString sampleLib (toolRequest ''execute_query'' ''query'' ''select 1'') ''query'' [] = ''select 1''"
    by code_simp
  have s: "ParseString sampleLib (toolRequest ''execute_statement'' ''statement'' ''select 1'') ''statement'' []
             = ''select 1''"
    by code_simp
  have n: "''select 1'' \<noteq> []"
    by simp
  have r: "fst (handleExecuteStatement sampleLib sampleEnv sampleDB
                  (toolRequest ''execute_statement'' ''statement'' ''select 1'') sampleWorld)
             = (Some (NewToolResultError ''SELECT queries should use execute_query tool''), None)"
    by code_simp
  show ?thesis
    using select_gates_complementary [OF q s n, of sampleEnv sampleDB sampleWorld sampleEnv sampleDB sampleWorld] r
    by simp
qed

section \<open>The resource dispatcher\<close>

lemma handleTableSchema_not_found:
  assumes "tableName \<noteq> []" and "GetTableSchema E db tableName w = (Inr [], w')"
  shows "handleTableSchema L E db tableName w = (Inl (''table '' @ quoted tableName @ '' not found''), w')"
  using assms by (simp add: handleTableSchema_def)

lemma HandleResource_table:
  "HandleResource L E db \<lparr>Params_URI = ''schema://table/'' @ tableName\<rparr> w =
     handleTableSchema L E db tableName w"
proof -
  have "''schema://table/'' @ tableName \<noteq> ''schema://tables''"
    by simp
  then show ?thesis
    using HasPrefix_append [of "''schema://table/''" tableName]
      TrimPrefix_append [of "''schema://table/''" tableName]
    by (simp add: HandleResource_def Let_def)
qed

text \<open>
  C6. \<open>HandleResource\<close> fails, with an error and no contents: on \<open>schema://table/\<close> with
  \<open>table name is required\<close>; on \<open>schema://table/<name>\<close> for a non-empty name whose schema
  comes back empty with \<open>table '<name>' not found\<close>; and on a URI that is neither
  \<open>schema://tables\<close> nor starts with \<open>schema://table/\<close> with \<open>unknown resource URI: <uri>\<close>.
\<close>

theorem HandleResource_hard_errors:
  "HandleResource L E db \<lparr>Params_URI = ''schema://table/''\<rparr> w = (Inl ''table name is required'', w) \<and>
   (tableName \<noteq> [] \<and> GetTableSchema E db tableName w = (Inr [], w') \<longrightarrow>
      HandleResource L E db \<lparr>Params_URI = ''schema://table/'' @ tableName\<rparr> w =
        (Inl (''table '' @ quoted tableName @ '' not found''), w')) \<and>
   (uri \<noteq> ''schema://tables'' \<and> \<not> HasPrefix uri ''schema://table/'' \<longrightarrow>
      HandleResource L E db \<lparr>Params_URI = uri\<rparr> w = (Inl (''unknown resource URI: '' @ uri), w))"
proof (intro conjI impI)
  show "HandleResource L E db \<lparr>Params_URI = ''schema://table/''\<rparr> w = (Inl ''table name is required'', w)"
    using HandleResource_table [of L E db "[]" w] by (simp add: handleTableSchema_def)
next
  assume "tableName \<noteq> [] \<and> GetTableSchema E db tableName w = (Inr [], w')"
  then have "handleTableSchema L E db tableName w = (Inl (''table '' @ quoted tableName @ '' not found''), w')"
    by (simp add: handleTableSchema_not_found)
  then show "HandleResource L E db \<lparr>Params_URI = ''schema://table/'' @ tableName\<rparr> w =
        (Inl (''table '' @ quoted tableName @ '' not found''), w')"
    by (simp only: HandleResource_table)
next
  assume "uri \<noteq> ''schema://tables'' \<and> \<not> HasPrefix uri ''schema://table/''"
  then show "HandleResource L E db \<lparr>Params_URI = uri\<rparr> w = (Inl (''unknown resource URI: '' @ uri), w)"
    by (simp add: HandleResource_def Let_def)
qed

theorem HandleResource_hard_errors_witness:
  "HandleResource sampleLib sampleEnv sampleDB \<lparr>Params_URI = ''schema://table/''\<rparr> sampleWorld =
     (Inl ''table name is required'', sampleWorld) \<and>
   HandleResource sampleLib sampleEnv sampleDB \<lparr>Params_URI = ''schema://table/non_existent''\<rparr> sampleWorld =
     (Inl (''table '' @ quoted ''non_existent'' @ '' not found''),
      afterQuery ''PRAGMA table_info(non_existent)'') \<and>
   HandleResource sampleLib sampleEnv sampleDB \<lparr>Params_URI = ''unknown://resource''\<rparr> sampleWorld =
     (Inl ''unknown resource URI: unknown://resource'', sampleWorld)"
proof -
  have g: "GetTableSchema sampleEnv sampleDB ''non_existent'' sampleWorld =
             (Inr [], afterQuery ''PRAGMA table_info(non_existent)'')"
    by (simp add: GetTableSchema_def Query_def emit_def sampleEnv_def sampleDB_def sampleWorld_def
          afterQuery_def)
  have u: "''unknown://resource'' \<noteq> ''schema://tables'' \<and>
           \<not> HasPrefix ''unknown://resource'' ''schema://table/''"
    by code_simp
  show ?thesis
    using HandleResource_hard_errors [of sampleLib sampleEnv sampleDB sampleWorld "''non_existent''"
        "afterQuery ''PRAGMA table_info(non_existent)''" "''unknown://resource''"] g u
    by simp
qed

text \<open>
  C7. For a non-empty table name whose schema comes back empty, the tool \<open>describe_table\<close>
  answers with the result flagged as an error \<open>Table '<name>' not found\<close>, and the resource
  \<open>schema://table/<name>\<close> fails with \<open>table '<name>' not found\<close>: neither reports success.
\<close>

theorem empty_schema_is_not_found:
  assumes "tableName \<noteq> []"
    and "GetTableSchema E db tableName w = (Inr [], w')"
  shows "(Params_Name request = ''describe_table'' \<and> ParseString L request ''table_name'' [] = tableName
            \<longrightarrow> HandleTool L E db request w =
                  ((Some (NewToolResultError (''Table '' @ quoted tableName @ '' not found'')), None), w')) \<and>
         HandleResource L E db \<lparr>Params_URI = ''schema://table/'' @ tableName\<rparr> w =
           (Inl (''table '' @ quoted tableName @ '' not found''), w')"
proof -
  have "handleTableSchema L E db tableName w = (Inl (''table '' @ quoted tableName @ '' not found''), w')"
    using assms by (rule handleTableSchema_not_found)
  then have "HandleResource L E db \<lparr>Params_URI = ''schema://table/'' @ tableName\<rparr> w =
           (Inl (''table '' @ quoted tableName @ '' not found''), w')"
    by (simp only: HandleResource_table)
  then show ?thesis
    using assms by (simp add: HandleTool_def handleDescribeTable_def)
qed

theorem empty_schema_is_not_found_witness:
  "HandleTool sampleLib sampleEnv sampleDB (toolRequest ''describe_table'' ''table_name'' ''nosuchtable'')
     sampleWorld =
     ((Some \<lparr>Content = [''Table '' @ quoted ''nosuchtable'' @ '' not found''], IsError = True\<rparr>, None),
      afterQuery ''PRAGMA table_info(nosuchtable)'') \<and>
   HandleResource sampleLib sampleEnv sampleDB \<lparr>Params_URI = ''schema://table/nosuchtable''\<rparr> sampleWorld =
     (Inl (''table '' @ quoted ''nosuchtable'' @ '' not found''), afterQuery ''PRAGMA table_info(nosuchtable)'')"
proof -
  have n: "''nosuchtable'' \<noteq> []"
    by simp
  have g: "GetTableSchema sampleEnv sampleDB ''nosuchtable'' sampleWorld =
             (Inr [], afterQuery ''PRAGMA table_info(nosuchtable)'')"
    by (simp add: GetTableSchema_def Query_def emit_def sampleEnv_def sampleDB_def sampleWorld_def
          afterQuery_def)
  have p: "Params_Name (toolRequest ''describe_table'' ''table_name'' ''nosuchtable'') = ''describe_table'' \<and>
           ParseString sampleLib (toolRequest ''describe_table'' ''table_name'' ''nosuchtable'') ''table_name'' []
             = ''nosuchtable''"
    by code_simp
  show ?thesis
    using empty_schema_is_not_found [OF n g,
        where request = "toolRequest ''describe_table'' ''table_name'' ''nosuchtable''" and L = sampleLib] p
    by (simp add: NewToolResultError_def)
qed

section \<open>Registration\<close>

lemma registeredTools_append:
  "registeredTools (xs @ ys) = registeredTools xs @ registeredTools ys"
  by (induction xs rule: registeredTools.induct) simp_all

lemma registerTools_append:
  "registerTools db readWrite ts mcpServer = mcpServer @ registerTools db readWrite ts []"
proof (induction ts arbitrary: mcpServer)
  case Nil
  show ?case by simp
next
  case (Cons t ts)
  define c where "c =
    (if \<not> readWrite \<and> Name t = ''execute_statement''
     then LogPrintf (''Skipping write tool '' @ quoted (Name t) @ '' in read-only mode'')
     else AddTool t db)"
  have step: "registerTools db readWrite (t # ts) s = registerTools db readWrite ts (s @ [c])" for s
    by (simp add: c_def)
  have "registerTools db readWrite (t # ts) mcpServer = (mcpServer @ [c]) @ registerTools db readWrite ts []"
    unfolding step by (rule Cons)
  moreover have "registerTools db readWrite (t # ts) [] = [c] @ registerTools db readWrite ts []"
    unfolding step using Cons [of "[c]"] by simp
  ultimately show ?case by simp
qed

text \<open>
  C5. Started without write permission, \<open>registerToolsAndResources\<close> gives the server
  \<open>execute_query\<close>, \<open>list_tables\<close> and \<open>describe_table\<close> and never \<open>execute_statement\<close>;
  started with write permission it gives it all four.
\<close>

theorem registration_gates_execute_statement:
  "registeredTools (registerToolsAndResources mcpServer db False) =
     registeredTools mcpServer @ [''execute_query'', ''list_tables'', ''describe_table''] \<and>
   registeredTools (registerToolsAndResources mcpServer db True) =
     registeredTools mcpServer @ [''execute_query'', ''execute_statement'', ''list_tables'', ''describe_table'']"
proof -
  have "registeredTools (registerToolsAndResources mcpServer db readWrite) =
          registeredTools mcpServer @ registeredTools (registerTools db readWrite GetTools [])"
    for readWrite
    using registerTools_append [of db readWrite GetTools mcpServer]
    by (simp add: registerToolsAndResources_def registeredTools_append GetResources_def
          GetResourceTemplates_def)
  then show ?thesis
    by (simp add: GetTools_def executeQueryTool_def executeStatementTool_def listTablesTool_def
          describeTableTool_def)
qed

theorem registration_gates_execute_statement_witness:
  "registeredTools (registerToolsAndResources [] sampleDB False) =
     [''execute_query'', ''list_tables'', ''describe_table''] \<and>
   ''execute_statement'' \<notin> set (registeredTools (registerToolsAndResources [] sampleDB False))"
  using registration_gates_execute_statement [of "[]" sampleDB]
  by simp

end
